theory Spec2Isabelle
  imports Main
begin

section \<open>Data model of scripts/oidc_credential_provider.py\<close>

text \<open>
  Instants are timezone-aware datetimes counted in microseconds from the epoch, the
  resolution of Python's datetime; a timedelta is a number of microseconds. The range
  limits of timedelta and datetime are checked where the code builds a timedelta from
  the provider's expires_in and adds it to the clock reading (timedelta_seconds,
  datetime_add); the subtraction of the refresh buffer from a stored expiry is exact.
\<close>

type_synonym timestamp = int
type_synonym timedelta = int

definition seconds :: "int \<Rightarrow> timedelta" where
  "seconds n = n * 1000000"

definition minutes :: "int \<Rightarrow> timedelta" where
  "minutes n = seconds (60 * n)"

text \<open>
  datetime.min and datetime.max in UTC: the first instant of year 1 and the last
  microsecond of year 9999.
\<close>

definition datetime_min :: timestamp where
  "datetime_min = seconds (- 62135596800)"

definition datetime_max :: timestamp where
  "datetime_max = seconds 253402300800 - 1"

text \<open>The dataclass Config: the two mandatory fields and the optional ones.\<close>

record Config =
  idp_type :: string
  aws_region :: string
  auth0_domain :: "string option"
  auth0_client_id :: "string option"
  auth0_client_secret :: "string option"
  auth0_audience :: "string option"
  aws_role_arn :: "string option"
  cognito_domain :: "string option"
  cognito_client_id :: "string option"
  cognito_client_secret :: "string option"
  cognito_resource_server :: "string option"
  cognito_credential_api_url :: "string option"

record CachedCredentials =
  access_key_id :: string
  secret_access_key :: string
  session_token :: string
  expiration :: timestamp

text \<open>The mutable fields of OidcCredentialProvider; None is Python's None.\<close>

record provider =
  config :: Config
  oidc_token :: "string option"
  oidc_expires :: "timestamp option"
  aws_creds :: "CachedCredentials option"

definition init_provider :: "Config \<Rightarrow> provider" where
  "init_provider cfg =
     \<lparr>config = cfg, oidc_token = None, oidc_expires = None, aws_creds = None\<rparr>"

definition REFRESH_BUFFER :: timedelta where
  "REFRESH_BUFFER = minutes 5"

subsection \<open>Collaborators: HTTP, STS, clock-free library functions\<close>

text \<open>
  A response body is seen through the keys the code reads. A key that is absent is None.
  The values are typed as the code's annotations have them: strings for the token, the
  error and the credential fields. The value of expires_in is an integer (true and
  false count as 1 and 0 in a timedelta) or a JSON value that is not a number; fractions
  of a second are not modelled. A body that is not a JSON object (malformed JSON, or a
  JSON value on which the membership test or the subscript raises) is the body None of
  a response.
\<close>

datatype json_number = JInteger int | JNotNumber

record cred_body =
  cb_access_key_id :: "string option"
  cb_secret_access_key :: "string option"
  cb_session_token :: "string option"
  cb_expiration :: "string option"

record json_body =
  jb_access_token :: "string option"
  jb_expires_in :: "json_number option"
  jb_error :: "string option"
  jb_credentials :: "cred_body option"

datatype payload =
    JsonPayload "(string \<times> string option) list"
  | FormPayload "(string \<times> string) list"

record http_request =
  req_url :: string
  req_payload :: payload
  req_headers :: "(string \<times> string) list"
  req_timeout :: nat

text \<open>
  requests.post either raises (connection error, timeout) or returns a response with a
  status code and a body.
\<close>

datatype http_result =
    RequestFailed string
  | Response nat "json_body option"

record sts_request =
  sts_region :: string
  RoleArn :: "string option"
  RoleSessionName :: string
  WebIdentityToken :: string
  DurationSeconds :: nat

record sts_credentials =
  AccessKeyId :: string
  SecretAccessKey :: string
  SessionToken :: string
  Expiration :: timestamp

text \<open>The exceptions the code raises or lets through, as values.\<close>

datatype error =
    RequestException string
  | HTTPError nat
  | JSONDecodeError
  | RuntimeError string "json_body option"
  | KeyError string
  | ValueError string
  | OSError string
  | ClientError string
  | TypeError
  | OverflowError

datatype write_result = WriteOk | WriteFailed "nat option"

type_synonym path = "string list"

text \<open>
  Everything outside the process: the HTTP transport, the STS client, base64, the ISO
  formatting and parsing of datetime, the outcome of each file-system call, and
  whether the operating system carries out a sleep of a given number of seconds.
  WriteFailed None is a write_text that fails before it creates the file;
  WriteFailed (Some n) one that fails after n characters have reached the file.
\<close>

record env =
  http_post :: "http_request \<Rightarrow> http_result"
  sts_assume :: "sts_request \<Rightarrow> error + sts_credentials"
  b64encode :: "string \<Rightarrow> string"
  isoformat :: "timestamp \<Rightarrow> string"
  fromisoformat :: "string \<Rightarrow> timestamp option"
  write_text :: "path \<Rightarrow> string \<Rightarrow> write_result"
  rename_ok :: "path \<Rightarrow> path \<Rightarrow> bool"
  mkdir_ok :: "path \<Rightarrow> bool"
  sleep_returns :: "int \<Rightarrow> bool"

text \<open>What the process does to the outside, in order.\<close>

datatype event =
    Post http_request
  | AssumeRole sts_request
  | Mkdir path
  | WriteText path string
  | Rename path path
  | Sleep int
  | LogError string "error option"
  | Print string
  | SysExit nat

section \<open>Token acquisition\<close>

text \<open>An f-string renders None as the text None.\<close>

definition fstr :: "string option \<Rightarrow> string" where
  "fstr x = (case x of None \<Rightarrow> ''None'' | Some s \<Rightarrow> s)"

text \<open>Truth value of an Optional[str]: None and the empty string are false.\<close>

definition truthy :: "string option \<Rightarrow> bool" where
  "truthy x = (case x of None \<Rightarrow> False | Some s \<Rightarrow> s \<noteq> [])"

text \<open>response.raise_for_status() raises for the 4xx and 5xx status codes.\<close>

definition raise_for_status :: "nat \<Rightarrow> bool" where
  "raise_for_status st = (400 \<le> st \<and> st < 600)"

text \<open>
  timedelta(seconds=expires_in): TypeError when the value is not a number,
  OverflowError when the number of days it makes is beyond 999999999 either way.
\<close>

definition timedelta_seconds :: "json_number \<Rightarrow> error + timedelta" where
  "timedelta_seconds v =
     (case v of
        JNotNumber \<Rightarrow> Inl TypeError
      | JInteger n \<Rightarrow>
          if - 999999999 \<le> n div 86400 \<and> n div 86400 \<le> 999999999 then Inr (seconds n)
          else Inl OverflowError)"

text \<open>datetime + timedelta: OverflowError when the sum leaves the range of datetime.\<close>

definition datetime_add :: "timestamp \<Rightarrow> timedelta \<Rightarrow> error + timestamp" where
  "datetime_add t d =
     (if datetime_min \<le> t + d \<and> t + d \<le> datetime_max then Inr (t + d)
      else Inl OverflowError)"

text \<open>
  Lines 190 and 191 (227 and 228 for Cognito): expires_in is read with the default
  86400, and the expiry is now + timedelta(seconds=expires_in). Both steps can raise.
\<close>

definition token_expiry :: "timestamp \<Rightarrow> json_body \<Rightarrow> error + timestamp" where
  "token_expiry now result =
     (let expires_in = (case jb_expires_in result of None \<Rightarrow> JInteger 86400 | Some v \<Rightarrow> v)
      in case timedelta_seconds expires_in of
           Inl err \<Rightarrow> Inl err
         | Inr td \<Rightarrow> datetime_add now td)"

definition auth0_token_request :: "Config \<Rightarrow> http_request" where
  "auth0_token_request cfg =
     \<lparr>req_url = ''https://'' @ fstr (auth0_domain cfg) @ ''/oauth/token'',
      req_payload = JsonPayload
        [(''grant_type'', Some ''client_credentials''),
         (''client_id'', auth0_client_id cfg),
         (''client_secret'', auth0_client_secret cfg),
         (''audience'', auth0_audience cfg)],
      req_headers = [(''Content-Type'', ''application/json'')],
      req_timeout = 30\<rparr>"

text \<open>
  In both token fetches the token is assigned first (lines 189 and 226); when the
  computation of the expiry raises, the provider keeps the new token with the expiry
  it had.
\<close>

definition get_auth0_token ::
  "env \<Rightarrow> timestamp \<Rightarrow> provider \<Rightarrow> (error + string) \<times> provider \<times> event list" where
  "get_auth0_token e now s =
     (let rq = auth0_token_request (config s) in
      case http_post e rq of
        RequestFailed m \<Rightarrow> (Inl (RequestException m), s, [Post rq])
      | Response st body \<Rightarrow>
          if raise_for_status st then (Inl (HTTPError st), s, [Post rq])
          else (case body of
            None \<Rightarrow> (Inl JSONDecodeError, s, [Post rq])
          | Some result \<Rightarrow>
              (case jb_access_token result of
                None \<Rightarrow>
                  (Inl (RuntimeError ''Auth0 token request failed: '' (Some result)), s, [Post rq])
              | Some tok \<Rightarrow>
                  (let s1 = s\<lparr>oidc_token := Some tok\<rparr> in
                   case token_expiry now result of
                     Inl err \<Rightarrow> (Inl err, s1, [Post rq])
                   | Inr ex \<Rightarrow> (Inr tok, s1\<lparr>oidc_expires := Some ex\<rparr>, [Post rq])))))"

definition cognito_scope :: "Config \<Rightarrow> string" where
  "cognito_scope cfg =
     fstr (cognito_resource_server cfg) @ ''/write '' @
     fstr (cognito_resource_server cfg) @ ''/read '' @
     fstr (cognito_resource_server cfg) @ ''/delete '' @
     fstr (cognito_resource_server cfg) @ ''/list''"

definition cognito_token_request :: "env \<Rightarrow> Config \<Rightarrow> http_request" where
  "cognito_token_request e cfg =
     \<lparr>req_url = ''https://'' @ fstr (cognito_domain cfg) @ ''.auth.'' @ aws_region cfg @
                 ''.amazoncognito.com/oauth2/token'',
      req_payload = FormPayload
        [(''grant_type'', ''client_credentials''), (''scope'', cognito_scope cfg)],
      req_headers =
        [(''Content-Type'', ''application/x-www-form-urlencoded''),
         (''Authorization'', ''Basic '' @
            b64encode e (fstr (cognito_client_id cfg) @ '':'' @ fstr (cognito_client_secret cfg)))],
      req_timeout = 30\<rparr>"

definition get_cognito_token ::
  "env \<Rightarrow> timestamp \<Rightarrow> provider \<Rightarrow> (error + string) \<times> provider \<times> event list" where
  "get_cognito_token e now s =
     (let rq = cognito_token_request e (config s) in
      case http_post e rq of
        RequestFailed m \<Rightarrow> (Inl (RequestException m), s, [Post rq])
      | Response st body \<Rightarrow>
          if raise_for_status st then (Inl (HTTPError st), s, [Post rq])
          else (case body of
            None \<Rightarrow> (Inl JSONDecodeError, s, [Post rq])
          | Some result \<Rightarrow>
              (case jb_access_token result of
                None \<Rightarrow>
                  (Inl (RuntimeError ''Cognito token request failed: '' (Some result)), s, [Post rq])
              | Some tok \<Rightarrow>
                  (let s1 = s\<lparr>oidc_token := Some tok\<rparr> in
                   case token_expiry now result of
                     Inl err \<Rightarrow> (Inl err, s1, [Post rq])
                   | Inr ex \<Rightarrow> (Inr tok, s1\<lparr>oidc_expires := Some ex\<rparr>, [Post rq])))))"

text \<open>Lines 162 to 165: the fetch of the configured backend.\<close>

definition fetch_oidc_token ::
  "env \<Rightarrow> timestamp \<Rightarrow> provider \<Rightarrow> (error + string) \<times> provider \<times> event list" where
  "fetch_oidc_token e now s =
     (if idp_type (config s) = ''auth0'' then get_auth0_token e now s
      else get_cognito_token e now s)"

text \<open>
  get_oidc_token: the cached token is returned when both cache fields are true (a token
  that is not None and not empty, an expiry that is not None) and now is earlier than
  the expiry less the buffer.
\<close>

definition get_oidc_token ::
  "env \<Rightarrow> timestamp \<Rightarrow> provider \<Rightarrow> (error + string) \<times> provider \<times> event list" where
  "get_oidc_token e now s =
     (case oidc_token s of
        None \<Rightarrow> fetch_oidc_token e now s
      | Some tok \<Rightarrow>
          (case oidc_expires s of
             None \<Rightarrow> fetch_oidc_token e now s
           | Some ex \<Rightarrow>
               if truthy (Some tok) \<and> now < ex - REFRESH_BUFFER then (Inr tok, s, [])
               else fetch_oidc_token e now s))"

text \<open>The request the active backend sends for a token.\<close>

definition token_request :: "env \<Rightarrow> Config \<Rightarrow> http_request" where
  "token_request e cfg =
     (if idp_type cfg = ''auth0'' then auth0_token_request cfg else cognito_token_request e cfg)"

section \<open>Credential exchange\<close>

definition auth0_sts_request :: "Config \<Rightarrow> string \<Rightarrow> sts_request" where
  "auth0_sts_request cfg tok =
     \<lparr>sts_region = aws_region cfg, RoleArn = aws_role_arn cfg,
      RoleSessionName = ''oidc-credential-provider'', WebIdentityToken = tok,
      DurationSeconds = 3600\<rparr>"

definition get_aws_credentials_auth0 ::
  "env \<Rightarrow> timestamp \<Rightarrow> provider \<Rightarrow> (error + CachedCredentials) \<times> provider \<times> event list" where
  "get_aws_credentials_auth0 e now s =
     (case get_oidc_token e now s of
        (Inl err, s1, tr) \<Rightarrow> (Inl err, s1, tr)
      | (Inr tok, s1, tr) \<Rightarrow>
          (let rq = auth0_sts_request (config s1) tok in
           case sts_assume e rq of
             Inl err \<Rightarrow> (Inl err, s1, tr @ [AssumeRole rq])
           | Inr creds \<Rightarrow>
               (let cc = \<lparr>access_key_id = AccessKeyId creds,
                          secret_access_key = SecretAccessKey creds,
                          session_token = SessionToken creds,
                          expiration = Expiration creds\<rparr>
                in (Inr cc, s1\<lparr>aws_creds := Some cc\<rparr>, tr @ [AssumeRole rq]))))"

definition vending_request :: "Config \<Rightarrow> string \<Rightarrow> http_request" where
  "vending_request cfg tok =
     \<lparr>req_url = fstr (cognito_credential_api_url cfg),
      req_payload = JsonPayload [(''access_token'', Some tok)],
      req_headers = [(''Content-Type'', ''application/json'')],
      req_timeout = 30\<rparr>"

text \<open>str.replace("Z", "+00:00"): every Z of the string is replaced.\<close>

definition replace_Z :: "string \<Rightarrow> string" where
  "replace_Z s = concat (map (\<lambda>c. if c = CHR ''Z'' then ''+00:00'' else [c]) s)"

text \<open>
  Lines 287 to 295: the subscripts are evaluated in the order expiration, access_key_id,
  secret_access_key, session_token; the first missing key raises KeyError.
\<close>

definition parse_vended :: "env \<Rightarrow> json_body \<Rightarrow> error + CachedCredentials" where
  "parse_vended e result =
     (case jb_credentials result of
        None \<Rightarrow> Inl (KeyError ''credentials'')
      | Some creds \<Rightarrow>
          (case cb_expiration creds of
             None \<Rightarrow> Inl (KeyError ''expiration'')
           | Some ex_str \<Rightarrow>
               (case fromisoformat e (replace_Z ex_str) of
                  None \<Rightarrow> Inl (ValueError ''Invalid isoformat string'')
                | Some ex \<Rightarrow>
                    (case cb_access_key_id creds of
                       None \<Rightarrow> Inl (KeyError ''access_key_id'')
                     | Some ak \<Rightarrow>
                         (case cb_secret_access_key creds of
                            None \<Rightarrow> Inl (KeyError ''secret_access_key'')
                          | Some sk \<Rightarrow>
                              (case cb_session_token creds of
                                 None \<Rightarrow> Inl (KeyError ''session_token'')
                               | Some st \<Rightarrow>
                                   Inr \<lparr>access_key_id = ak, secret_access_key = sk,
                                        session_token = st, expiration = ex\<rparr>))))))"

definition get_aws_credentials_cognito ::
  "env \<Rightarrow> timestamp \<Rightarrow> provider \<Rightarrow> (error + CachedCredentials) \<times> provider \<times> event list" where
  "get_aws_credentials_cognito e now s =
     (case get_oidc_token e now s of
        (Inl err, s1, tr) \<Rightarrow> (Inl err, s1, tr)
      | (Inr tok, s1, tr) \<Rightarrow>
          (let rq = vending_request (config s1) tok in
           case http_post e rq of
             RequestFailed m \<Rightarrow> (Inl (RequestException m), s1, tr @ [Post rq])
           | Response st body \<Rightarrow>
               if raise_for_status st then (Inl (HTTPError st), s1, tr @ [Post rq])
               else (case body of
                 None \<Rightarrow> (Inl JSONDecodeError, s1, tr @ [Post rq])
               | Some result \<Rightarrow>
                   (case jb_error result of
                      Some msg \<Rightarrow>
                        (Inl (RuntimeError (''Credential vending API error: '' @ msg) None),
                         s1, tr @ [Post rq])
                    | None \<Rightarrow>
                        (case parse_vended e result of
                           Inl err \<Rightarrow> (Inl err, s1, tr @ [Post rq])
                         | Inr cc \<Rightarrow>
                             (Inr cc, s1\<lparr>aws_creds := Some cc\<rparr>, tr @ [Post rq]))))))"

text \<open>
  get_aws_credentials reads the clock once (now); the token path, when it is taken,
  reads it again (now_tok).
\<close>

definition get_aws_credentials ::
  "env \<Rightarrow> timestamp \<Rightarrow> timestamp \<Rightarrow> provider \<Rightarrow>
     (error + CachedCredentials) \<times> provider \<times> event list" where
  "get_aws_credentials e now now_tok s =
     (case aws_creds s of
        None \<Rightarrow>
          (if idp_type (config s) = ''auth0'' then get_aws_credentials_auth0 e now_tok s
           else get_aws_credentials_cognito e now_tok s)
      | Some cc \<Rightarrow>
          if now < expiration cc - REFRESH_BUFFER then (Inr cc, s, [])
          else if idp_type (config s) = ''auth0'' then get_aws_credentials_auth0 e now_tok s
          else get_aws_credentials_cognito e now_tok s)"

section \<open>Atomic file publication\<close>

text \<open>
  A path is the list of its components below the anchor; the last one is its name. The
  file system maps the paths of the files that exist to their contents.
\<close>

type_synonym fs = "path \<Rightarrow> string option"

text \<open>
  pathlib's suffix of a name: the part from the last dot on, when that dot is neither
  the first nor the last character of the name; otherwise empty.
\<close>

definition rfind_dot :: "string \<Rightarrow> nat option" where
  "rfind_dot name =
     (if CHR ''.'' \<in> set name
      then Some (length name - 1 - length (takeWhile (\<lambda>c. c \<noteq> CHR ''.'') (rev name)))
      else None)"

definition suffix_of :: "string \<Rightarrow> string" where
  "suffix_of name =
     (case rfind_dot name of
        None \<Rightarrow> []
      | Some i \<Rightarrow> if 0 < i \<and> i < length name - 1 then drop i name else [])"

text \<open>
  pathlib's with_suffix: ValueError on an empty name; the new suffix is appended when
  the name has no suffix, and replaces the old suffix otherwise.
\<close>

definition with_suffix :: "path \<Rightarrow> string \<Rightarrow> error + path" where
  "with_suffix p sfx =
     (if p = [] \<or> last p = [] then Inl (ValueError ''path has an empty name'')
      else (let name = last p; old = suffix_of name;
                name' = (if old = [] then name @ sfx
                         else take (length name - length old) name @ sfx)
            in Inr (butlast p @ [name'])))"

definition atomic_write ::
  "env \<Rightarrow> path \<Rightarrow> string \<Rightarrow> fs \<Rightarrow> (error + unit) \<times> fs \<times> event list" where
  "atomic_write e p content files =
     (case with_suffix p ''.tmp'' of
        Inl err \<Rightarrow> (Inl err, files, [])
      | Inr tmp_path \<Rightarrow>
          (case write_text e tmp_path content of
             WriteFailed None \<Rightarrow>
               (Inl (OSError ''write_text''), files, [WriteText tmp_path content])
           | WriteFailed (Some n) \<Rightarrow>
               (Inl (OSError ''write_text''), files(tmp_path \<mapsto> take n content),
                [WriteText tmp_path content])
           | WriteOk \<Rightarrow>
               (let files1 = files(tmp_path \<mapsto> content) in
                if \<not> rename_ok e tmp_path p
                then (Inl (OSError ''rename''), files1,
                      [WriteText tmp_path content, Rename tmp_path p])
                else (Inr (),
                      (if tmp_path = p then files1
                       else (files1(tmp_path := None))(p \<mapsto> content)),
                      [WriteText tmp_path content, Rename tmp_path p]))))"

section \<open>Rendering: json.dumps and the file contents\<close>

text \<open>
  json.dumps with ensure_ascii: the characters from space to tilde stand for
  themselves, except the quote and the backslash; the others are escaped. A character
  is a code point below 256.
\<close>

definition hex_digit :: "nat \<Rightarrow> char" where
  "hex_digit n = ''0123456789abcdef'' ! (n mod 16)"

definition json_escape_char :: "char \<Rightarrow> string" where
  "json_escape_char c =
     (if c = CHR 0x5C then [CHR 0x5C, CHR 0x5C]
      else if c = CHR 0x22 then [CHR 0x5C, CHR 0x22]
      else if c = CHR 0x08 then [CHR 0x5C, CHR ''b'']
      else if c = CHR 0x0C then [CHR 0x5C, CHR ''f'']
      else if c = CHR 0x0A then [CHR 0x5C, CHR ''n'']
      else if c = CHR 0x0D then [CHR 0x5C, CHR ''r'']
      else if c = CHR 0x09 then [CHR 0x5C, CHR ''t'']
      else if 32 \<le> (of_char c :: nat) \<and> (of_char c :: nat) \<le> 126 then [c]
      else [CHR 0x5C, CHR ''u'', CHR ''0'', CHR ''0'',
            hex_digit (of_char c div 16), hex_digit (of_char c)])"

definition json_string :: "string \<Rightarrow> string" where
  "json_string s = [CHR 0x22] @ concat (map json_escape_char s) @ [CHR 0x22]"

fun dec :: "nat \<Rightarrow> string" where
  "dec n = (if n < 10 then [''0123456789'' ! n]
            else dec (n div 10) @ [''0123456789'' ! (n mod 10)])"

declare dec.simps [simp del]

definition dec_int :: "int \<Rightarrow> string" where
  "dec_int i = (if i < 0 then ''-'' @ dec (nat (- i)) else dec (nat i))"

datatype jvalue = JInt int | JStr string

definition json_value :: "jvalue \<Rightarrow> string" where
  "json_value v = (case v of JInt i \<Rightarrow> dec_int i | JStr s \<Rightarrow> json_string s)"

fun join :: "string \<Rightarrow> string list \<Rightarrow> string" where
  "join sep [] = []"
| "join sep [x] = x"
| "join sep (x # y # ys) = x @ sep @ join sep (y # ys)"

text \<open>json.dumps of a dict with the default separators, keys in insertion order.\<close>

definition json_dumps :: "(string \<times> jvalue) list \<Rightarrow> string" where
  "json_dumps d =
     ''{'' @ join '', '' (map (\<lambda>(k, v). json_string k @ '': '' @ json_value v) d) @ ''}''"

text \<open>json.dumps of a dict with indent=2.\<close>

definition json_dumps_indent2 :: "(string \<times> jvalue) list \<Rightarrow> string" where
  "json_dumps_indent2 d =
     (if d = [] then ''{}''
      else ''{'' @ [CHR 0x0A] @
           join ('','' @ [CHR 0x0A])
             (map (\<lambda>(k, v). ''  '' @ json_string k @ '': '' @ json_value v) d) @
           [CHR 0x0A] @ ''}'')"

definition unlines :: "string list \<Rightarrow> string" where
  "unlines ls = concat (map (\<lambda>l. l @ [CHR 0x0A]) ls)"

definition credentials_output :: "env \<Rightarrow> CachedCredentials \<Rightarrow> (string \<times> jvalue) list" where
  "credentials_output e creds =
     [(''Version'', JInt 1),
      (''AccessKeyId'', JStr (access_key_id creds)),
      (''SecretAccessKey'', JStr (secret_access_key creds)),
      (''SessionToken'', JStr (session_token creds)),
      (''Expiration'', JStr (isoformat e (expiration creds)))]"

definition env_content :: "env \<Rightarrow> timestamp \<Rightarrow> Config \<Rightarrow> CachedCredentials \<Rightarrow> string" where
  "env_content e now cfg creds = unlines
     [''# AWS credentials - auto-refreshed by oidc-credential-provider'',
      ''# Generated: '' @ isoformat e now,
      ''# Expires: '' @ isoformat e (expiration creds),
      ''export AWS_ACCESS_KEY_ID='' @ [CHR 0x22] @ access_key_id creds @ [CHR 0x22],
      ''export AWS_SECRET_ACCESS_KEY='' @ [CHR 0x22] @ secret_access_key creds @ [CHR 0x22],
      ''export AWS_SESSION_TOKEN='' @ [CHR 0x22] @ session_token creds @ [CHR 0x22],
      ''export AWS_REGION='' @ [CHR 0x22] @ aws_region cfg @ [CHR 0x22]]"

definition json_content :: "env \<Rightarrow> Config \<Rightarrow> CachedCredentials \<Rightarrow> string" where
  "json_content e cfg creds = json_dumps_indent2
     [(''access_key_id'', JStr (access_key_id creds)),
      (''secret_access_key'', JStr (secret_access_key creds)),
      (''session_token'', JStr (session_token creds)),
      (''expiration'', JStr (isoformat e (expiration creds))),
      (''region'', JStr (aws_region cfg))]"

definition aws_creds_content :: "env \<Rightarrow> timestamp \<Rightarrow> Config \<Rightarrow> CachedCredentials \<Rightarrow> string" where
  "aws_creds_content e now cfg creds = unlines
     [''# AWS credentials - auto-refreshed by oidc-credential-provider'',
      ''# Generated: '' @ isoformat e now,
      ''# Expires: '' @ isoformat e (expiration creds),
      ''[default]'',
      ''aws_access_key_id = '' @ access_key_id creds,
      ''aws_secret_access_key = '' @ secret_access_key creds,
      ''aws_session_token = '' @ session_token creds,
      ''region = '' @ aws_region cfg]"

section \<open>Delivery modes\<close>

definition cmd_get_credentials ::
  "env \<Rightarrow> timestamp \<Rightarrow> timestamp \<Rightarrow> provider \<Rightarrow> (error + unit) \<times> provider \<times> event list" where
  "cmd_get_credentials e now now_tok s =
     (case get_aws_credentials e now now_tok s of
        (Inl err, s1, tr) \<Rightarrow> (Inl err, s1, tr)
      | (Inr creds, s1, tr) \<Rightarrow>
          (Inr (), s1, tr @ [Print (json_dumps (credentials_output e creds))]))"

text \<open>The clock readings of one daemon cycle, in the order the code takes them.\<close>

record clock =
  now_creds :: timestamp
  now_token :: timestamp
  now_env_file :: timestamp
  now_sdk_file :: timestamp

definition env_file :: "path \<Rightarrow> path" where
  "env_file creds_path = creds_path @ [''aws-credentials.env'']"

definition json_file :: "path \<Rightarrow> path" where
  "json_file creds_path = creds_path @ [''aws-credentials.json'']"

definition aws_creds_file :: "path \<Rightarrow> path" where
  "aws_creds_file creds_path = creds_path @ [''credentials'']"

text \<open>The body of the try block of cmd_credential_daemon (lines 355 to 393).\<close>

definition credential_refresh ::
  "env \<Rightarrow> clock \<Rightarrow> path \<Rightarrow> provider \<Rightarrow> fs \<Rightarrow>
     (error + unit) \<times> provider \<times> fs \<times> event list" where
  "credential_refresh e ck creds_path s files =
     (case get_aws_credentials e (now_creds ck) (now_token ck) s of
        (Inl err, s1, tr) \<Rightarrow> (Inl err, s1, files, tr)
      | (Inr creds, s1, tr) \<Rightarrow>
          (case atomic_write e (env_file creds_path)
                  (env_content e (now_env_file ck) (config s1) creds) files of
             (Inl err, f1, tr1) \<Rightarrow> (Inl err, s1, f1, tr @ tr1)
           | (Inr u1, f1, tr1) \<Rightarrow>
               (case atomic_write e (json_file creds_path)
                       (json_content e (config s1) creds) f1 of
                  (Inl err, f2, tr2) \<Rightarrow> (Inl err, s1, f2, tr @ tr1 @ tr2)
                | (Inr u2, f2, tr2) \<Rightarrow>
                    (case atomic_write e (aws_creds_file creds_path)
                            (aws_creds_content e (now_sdk_file ck) (config s1) creds) f2 of
                       (Inl err, f3, tr3) \<Rightarrow> (Inl err, s1, f3, tr @ tr1 @ tr2 @ tr3)
                     | (Inr u3, f3, tr3) \<Rightarrow> (Inr (), s1, f3, tr @ tr1 @ tr2 @ tr3)))))"

text \<open>
  One iteration of the loop: the try block, the handler of Exception (every error of
  the model is an Exception), then the call of time.sleep.
\<close>

definition credential_cycle ::
  "env \<Rightarrow> clock \<Rightarrow> path \<Rightarrow> int \<Rightarrow> provider \<Rightarrow> fs \<Rightarrow> provider \<times> fs \<times> event list" where
  "credential_cycle e ck creds_path interval s files =
     (case credential_refresh e ck creds_path s files of
        (Inl err, s1, f1, tr) \<Rightarrow>
          (s1, f1, tr @ [LogError ''Failed to refresh credentials: %s'' (Some err),
                         Sleep interval])
      | (Inr u, s1, f1, tr) \<Rightarrow> (s1, f1, tr @ [Sleep interval]))"

text \<open>
  How a command stands after the cycles that were given to it: still in its loop, left
  by an exception, or left by sys.exit.
\<close>

datatype status = Running | Raised error | Exited nat

text \<open>
  time.sleep on an int, in CPython on a 64-bit platform: the seconds are converted to
  nanoseconds in a signed 64-bit integer, OverflowError when they do not fit; then a
  negative value is a ValueError; then the operating system sleeps, or rejects the
  length with an OSError (it does for lengths close to the limit of its time type).
  None when the call sleeps and returns.
\<close>

definition sleep_error :: "env \<Rightarrow> int \<Rightarrow> error option" where
  "sleep_error e secs =
     (if secs < - 9223372036 \<or> 9223372036 < secs then Some OverflowError
      else if secs < 0 then Some (ValueError ''sleep length must be non-negative'')
      else if sleep_returns e secs then None
      else Some (OSError ''sleep''))"

text \<open>
  The loop, run for the cycles whose environments are listed. The event Sleep is the
  call of time.sleep, which is outside the try block: when it raises, the exception
  leaves the loop.
\<close>

fun credential_loop ::
  "(env \<times> clock) list \<Rightarrow> path \<Rightarrow> int \<Rightarrow> provider \<Rightarrow> fs \<Rightarrow>
     status \<times> provider \<times> fs \<times> event list" where
  "credential_loop [] creds_path interval s files = (Running, s, files, [])"
| "credential_loop (c # rest) creds_path interval s files =
     (case credential_cycle (fst c) (snd c) creds_path interval s files of
        (s1, f1, tr) \<Rightarrow>
          (case sleep_error (fst c) interval of
             Some err \<Rightarrow> (Raised err, s1, f1, tr)
           | None \<Rightarrow>
               (case credential_loop rest creds_path interval s1 f1 of
                  (st, s2, f2, tr2) \<Rightarrow> (st, s2, f2, tr @ tr2))))"

definition cmd_credential_daemon ::
  "env \<Rightarrow> (env \<times> clock) list \<Rightarrow> path \<Rightarrow> int \<Rightarrow> provider \<Rightarrow> fs \<Rightarrow>
     status \<times> provider \<times> fs \<times> event list" where
  "cmd_credential_daemon e0 cycles creds_path interval s files =
     (if \<not> mkdir_ok e0 creds_path
      then (Raised (OSError ''mkdir''), s, files, [Mkdir creds_path])
      else (case credential_loop cycles creds_path interval s files of
              (st, s1, f1, tr) \<Rightarrow> (st, s1, f1, Mkdir creds_path # tr)))"

text \<open>The body of the try block of cmd_token_daemon (lines 424 to 427).\<close>

definition token_refresh ::
  "env \<Rightarrow> timestamp \<Rightarrow> path \<Rightarrow> provider \<Rightarrow> fs \<Rightarrow>
     (error + unit) \<times> provider \<times> fs \<times> event list" where
  "token_refresh e now token_file s files =
     (case get_oidc_token e now s of
        (Inl err, s1, tr) \<Rightarrow> (Inl err, s1, files, tr)
      | (Inr tok, s1, tr) \<Rightarrow>
          if \<not> mkdir_ok e (butlast token_file)
          then (Inl (OSError ''mkdir''), s1, files, tr @ [Mkdir (butlast token_file)])
          else (case atomic_write e token_file tok files of
                  (r, f1, tr1) \<Rightarrow> (r, s1, f1, tr @ [Mkdir (butlast token_file)] @ tr1)))"

definition token_cycle ::
  "env \<Rightarrow> timestamp \<Rightarrow> path \<Rightarrow> int \<Rightarrow> provider \<Rightarrow> fs \<Rightarrow> provider \<times> fs \<times> event list" where
  "token_cycle e now token_file interval s files =
     (case token_refresh e now token_file s files of
        (Inl err, s1, f1, tr) \<Rightarrow>
          (s1, f1, tr @ [LogError ''Failed to refresh token: %s'' (Some err), Sleep interval])
      | (Inr u, s1, f1, tr) \<Rightarrow> (s1, f1, tr @ [Sleep interval]))"

fun token_loop ::
  "(env \<times> clock) list \<Rightarrow> path \<Rightarrow> int \<Rightarrow> provider \<Rightarrow> fs \<Rightarrow>
     status \<times> provider \<times> fs \<times> event list" where
  "token_loop [] token_file interval s files = (Running, s, files, [])"
| "token_loop (c # rest) token_file interval s files =
     (case token_cycle (fst c) (now_token (snd c)) token_file interval s files of
        (s1, f1, tr) \<Rightarrow>
          (case sleep_error (fst c) interval of
             Some err \<Rightarrow> (Raised err, s1, f1, tr)
           | None \<Rightarrow>
               (case token_loop rest token_file interval s1 f1 of
                  (st, s2, f2, tr2) \<Rightarrow> (st, s2, f2, tr @ tr2))))"

definition cmd_token_daemon ::
  "(env \<times> clock) list \<Rightarrow> path \<Rightarrow> int \<Rightarrow> provider \<Rightarrow> fs \<Rightarrow>
     status \<times> provider \<times> fs \<times> event list" where
  "cmd_token_daemon cycles token_file interval s files =
     (if idp_type (config s) \<noteq> ''auth0''
      then (Exited 1, s, files,
            [LogError ''Token daemon only works with Auth0.'' None,
             LogError ''Cognito requires the credential vending API'' None,
             SysExit 1])
      else token_loop cycles token_file interval s files)"

text \<open>
  main after argument parsing and Config.from_env: the provider is fresh, the command is
  dispatched, and an exception that reaches main is logged and becomes exit code 1. The
  result is the exit code (None while the daemon is still in its loop), the files and
  the events.
\<close>

datatype command =
    GetCredentials
  | CredentialDaemon path int
  | TokenDaemon path int

text \<open>
  The arguments of credential-daemon as argparse leaves them (lines 489 to 499): a
  directory and an interval that were not given take their defaults.
\<close>

definition parse_credential_daemon :: "path option \<Rightarrow> int option \<Rightarrow> command" where
  "parse_credential_daemon creds_dir interval =
     CredentialDaemon
       (case creds_dir of None \<Rightarrow> [''var'', ''run'', ''aws-creds''] | Some p \<Rightarrow> p)
       (case interval of None \<Rightarrow> 2700 | Some n \<Rightarrow> n)"

definition default_token_daemon :: command where
  "default_token_daemon = TokenDaemon [''var'', ''run'', ''oidc'', ''token''] 3600"

definition finish ::
  "status \<times> provider \<times> fs \<times> event list \<Rightarrow> nat option \<times> fs \<times> event list" where
  "finish r =
     (case r of
        (Running, s, files, tr) \<Rightarrow> (None, files, tr)
      | (Raised err, s, files, tr) \<Rightarrow> (Some 1, files, tr @ [LogError ''Error: %s'' (Some err)])
      | (Exited n, s, files, tr) \<Rightarrow> (Some n, files, tr))"

definition main ::
  "Config \<Rightarrow> command \<Rightarrow> env \<Rightarrow> clock \<Rightarrow> (env \<times> clock) list \<Rightarrow> fs \<Rightarrow>
     nat option \<times> fs \<times> event list" where
  "main cfg cmd e0 ck0 cycles files =
     (case cmd of
        GetCredentials \<Rightarrow>
          (case cmd_get_credentials e0 (now_creds ck0) (now_token ck0) (init_provider cfg) of
             (Inl err, s1, tr) \<Rightarrow> (Some 1, files, tr @ [LogError ''Error: %s'' (Some err)])
           | (Inr u, s1, tr) \<Rightarrow> (Some 0, files, tr))
      | CredentialDaemon creds_path interval \<Rightarrow>
          finish (cmd_credential_daemon e0 cycles creds_path interval (init_provider cfg) files)
      | TokenDaemon token_file interval \<Rightarrow>
          finish (cmd_token_daemon cycles token_file interval (init_provider cfg) files))"

subsection \<open>Observations on a trace\<close>

fun is_fetch :: "event \<Rightarrow> bool" where
  "is_fetch (Post rq) = True"
| "is_fetch (AssumeRole rq) = True"
| "is_fetch ev = False"

fun is_file_op :: "event \<Rightarrow> bool" where
  "is_file_op (WriteText p c) = True"
| "is_file_op (Rename p q) = True"
| "is_file_op (Mkdir p) = True"
| "is_file_op ev = False"

fun is_sleep :: "event \<Rightarrow> bool" where
  "is_sleep (Sleep n) = True"
| "is_sleep ev = False"

section \<open>Concrete scenarios\<close>

definition cfg_auth0 :: Config where
  "cfg_auth0 =
     \<lparr>idp_type = ''auth0'', aws_region = ''eu-west-1'',
      auth0_domain = Some ''tenant.auth0.com'', auth0_client_id = Some ''cid'',
      auth0_client_secret = Some ''csecret'', auth0_audience = Some ''api'',
      aws_role_arn = Some ''arn:aws:iam::1:role/r'',
      cognito_domain = None, cognito_client_id = None, cognito_client_secret = None,
      cognito_resource_server = None, cognito_credential_api_url = None\<rparr>"

definition cfg_cognito :: Config where
  "cfg_cognito =
     \<lparr>idp_type = ''cognito'', aws_region = ''eu-west-1'',
      auth0_domain = None, auth0_client_id = None, auth0_client_secret = None,
      auth0_audience = None, aws_role_arn = None,
      cognito_domain = Some ''pool'', cognito_client_id = Some ''cid'',
      cognito_client_secret = Some ''csecret'', cognito_resource_server = Some ''rs'',
      cognito_credential_api_url = Some ''https://vend.example/creds''\<rparr>"

definition token_body :: json_body where
  "token_body =
     \<lparr>jb_access_token = Some ''jwt1'', jb_expires_in = None, jb_error = None,
      jb_credentials = None\<rparr>"

definition error_body :: json_body where
  "error_body =
     \<lparr>jb_access_token = None, jb_expires_in = None, jb_error = Some ''invalid_client'',
      jb_credentials = None\<rparr>"

definition sts_ok :: sts_credentials where
  "sts_ok =
     \<lparr>AccessKeyId = ''AKIA1'', SecretAccessKey = ''s3cr3t'', SessionToken = ''tok1'',
      Expiration = seconds 3600\<rparr>"

text \<open>An environment in which every call succeeds.\<close>

definition env_ok :: env where
  "env_ok =
     \<lparr>http_post = (\<lambda>rq. Response 200 (Some token_body)),
      sts_assume = (\<lambda>rq. Inr sts_ok),
      b64encode = (\<lambda>s. s),
      isoformat = (\<lambda>t. ''1970-01-01T01:00:00+00:00''),
      fromisoformat = (\<lambda>s. Some (seconds 3600)),
      write_text = (\<lambda>p c. WriteOk),
      rename_ok = (\<lambda>p q. True),
      mkdir_ok = (\<lambda>p. True),
      sleep_returns = (\<lambda>n. True)\<rparr>"

text \<open>The network is down.\<close>

definition env_down :: env where
  "env_down = env_ok\<lparr>http_post := (\<lambda>rq. RequestFailed ''connection refused'')\<rparr>"

text \<open>The vending endpoint answers with an error body, with status 200 or 401.\<close>

definition env_vending_error :: "nat \<Rightarrow> env" where
  "env_vending_error st =
     env_ok\<lparr>http_post := (\<lambda>rq. if req_url rq = ''https://vend.example/creds''
                               then Response st (Some error_body)
                               else Response 200 (Some token_body))\<rparr>"

text \<open>The disk fills up after three characters of a file.\<close>

definition env_disk_full :: env where
  "env_disk_full = env_ok\<lparr>write_text := (\<lambda>p c. WriteFailed (Some 3))\<rparr>"

definition clock0 :: clock where
  "clock0 = \<lparr>now_creds = 0, now_token = 0, now_env_file = 0, now_sdk_file = 0\<rparr>"

text \<open>A provider whose token cache holds a token for a day, and one holding an empty token.\<close>

definition provider_cached :: provider where
  "provider_cached =
     \<lparr>config = cfg_auth0, oidc_token = Some ''jwt0'', oidc_expires = Some (seconds 86400),
      aws_creds = None\<rparr>"

definition provider_empty_token :: provider where
  "provider_empty_token =
     \<lparr>config = cfg_auth0, oidc_token = Some [], oidc_expires = Some (seconds 86400),
      aws_creds = None\<rparr>"

definition creds0 :: CachedCredentials where
  "creds0 =
     \<lparr>access_key_id = ''AKIA0'', secret_access_key = ''s0'', session_token = ''t0'',
      expiration = seconds 3600\<rparr>"

definition provider_with_creds :: provider where
  "provider_with_creds =
     \<lparr>config = cfg_cognito, oidc_token = None, oidc_expires = None, aws_creds = Some creds0\<rparr>"

text \<open>
  A provider whose cached token is within the refresh buffer of its expiry at time 0.
\<close>

definition provider_stale :: provider where
  "provider_stale =
     \<lparr>config = cfg_auth0, oidc_token = Some ''jwt0'', oidc_expires = Some (seconds 100),
      aws_creds = None\<rparr>"

text \<open>
  The token endpoint answers with status 302 and a token body.
\<close>

definition env_redirect :: env where
  "env_redirect = env_ok\<lparr>http_post := (\<lambda>rq. Response 302 (Some token_body))\<rparr>"

section \<open>Properties of the token cache\<close>

lemma REFRESH_BUFFER_value: "REFRESH_BUFFER = seconds 300"
  by (simp add: REFRESH_BUFFER_def minutes_def)

lemma fetch_trace:
  "snd (snd (fetch_oidc_token e now s)) = [Post (token_request e (config s))]"
  by (simp add: fetch_oidc_token_def token_request_def get_auth0_token_def
      get_cognito_token_def Let_def split: http_result.splits option.splits sum.splits)


lemma token_expiry_epoch_default:
  "jb_expires_in result = None \<Longrightarrow> token_expiry 0 result = Inr (seconds 86400)"
  by (simp add: token_expiry_def timedelta_seconds_def datetime_add_def datetime_min_def
      datetime_max_def seconds_def)


lemma fetch_expiry_failure:
  "http_post e (token_request e (config s)) = Response st (Some result) \<Longrightarrow>
   \<not> raise_for_status st \<Longrightarrow> jb_access_token result = Some tok \<Longrightarrow>
   token_expiry now result = Inl err \<Longrightarrow>
   fetch_oidc_token e now s =
     (Inl err, s\<lparr>oidc_token := Some tok\<rparr>, [Post (token_request e (config s))])"
  by (auto simp: fetch_oidc_token_def token_request_def get_auth0_token_def
      get_cognito_token_def Let_def)


lemma get_oidc_token_hit:
  "oidc_token s = Some tok \<Longrightarrow> tok \<noteq> [] \<Longrightarrow> oidc_expires s = Some ex \<Longrightarrow>
   now < ex - REFRESH_BUFFER \<Longrightarrow> get_oidc_token e now s = (Inr tok, s, [])"
  by (simp add: get_oidc_token_def truthy_def)


lemma get_oidc_token_unusable:
  "\<not> (\<exists>tok ex. oidc_token s = Some tok \<and> tok \<noteq> [] \<and> oidc_expires s = Some ex \<and>
        now < ex - REFRESH_BUFFER) \<Longrightarrow>
   get_oidc_token e now s = fetch_oidc_token e now s"
  by (auto simp: get_oidc_token_def truthy_def split: option.splits)

lemma fetch_failure_kinds:
  assumes "(\<exists>m. http_post e (token_request e (config s)) = RequestFailed m) \<or>
     (\<exists>st body. http_post e (token_request e (config s)) = Response st body \<and>
        (raise_for_status st \<or> body = None \<or>
         (\<exists>result. body = Some result \<and> jb_access_token result = None)))"
  shows "\<exists>err. fetch_oidc_token e now s = (Inl err, s, [Post (token_request e (config s))])"
  using assms
  by (auto simp: fetch_oidc_token_def token_request_def get_auth0_token_def
      get_cognito_token_def Let_def)

lemma stale_unusable:
  "\<not> (\<exists>tok ex. oidc_token provider_cached = Some tok \<and> tok \<noteq> [] \<and>
        oidc_expires provider_cached = Some ex \<and> seconds 86400 < ex - REFRESH_BUFFER)"
  by (simp add: provider_cached_def seconds_def REFRESH_BUFFER_def minutes_def)

lemma fetch_keeps_rest:
  "fetch_oidc_token e now s = (r, s1, tr) \<Longrightarrow> aws_creds s1 = aws_creds s \<and> config s1 = config s"
  by (auto simp: fetch_oidc_token_def get_auth0_token_def get_cognito_token_def Let_def
      split: if_splits http_result.splits option.splits sum.splits)

lemma get_oidc_token_keeps_rest:
  "get_oidc_token e now s = (r, s1, tr) \<Longrightarrow> aws_creds s1 = aws_creds s \<and> config s1 = config s"
  by (auto simp: get_oidc_token_def dest: fetch_keeps_rest split: option.splits if_splits)

lemma get_oidc_token_no_file_op:
  "get_oidc_token e now s = (r, s1, tr) \<Longrightarrow> filter is_file_op tr = []"
  using fetch_trace [of e now s]
  by (auto simp: get_oidc_token_def split: option.splits if_splits)

lemma cognito_exchange_error:
  assumes tok: "get_oidc_token e now_tok s = (Inr tok, s1, tr)"
    and resp: "http_post e (vending_request (config s1) tok) = Response st (Some result)"
    and err: "jb_error result = Some msg"
  shows "get_aws_credentials_cognito e now_tok s =
    (Inl (if raise_for_status st then HTTPError st
          else RuntimeError (''Credential vending API error: '' @ msg) None),
     s1, tr @ [Post (vending_request (config s1) tok)])"
  using assms by (simp add: get_aws_credentials_cognito_def Let_def)

lemma get_aws_credentials_miss_cognito:
  "idp_type (config s) \<noteq> ''auth0'' \<Longrightarrow>
   aws_creds s = None \<or> (\<exists>cc. aws_creds s = Some cc \<and> expiration cc - now \<le> REFRESH_BUFFER) \<Longrightarrow>
   get_aws_credentials e now now_tok s = get_aws_credentials_cognito e now_tok s"
  by (auto simp: get_aws_credentials_def split: option.splits)

lemma with_suffix_credentials:
  "with_suffix [''d'', ''credentials''] ''.tmp'' = Inr [''d'', ''credentials.tmp'']"
  by (simp add: with_suffix_def suffix_of_def rfind_dot_def)

lemma suffix_of_env: "suffix_of ''aws-credentials.env'' = ''.env''"
  by (simp add: suffix_of_def rfind_dot_def)

lemma suffix_of_json: "suffix_of ''aws-credentials.json'' = ''.json''"
  by (simp add: suffix_of_def rfind_dot_def)

lemma with_suffix_env_file:
  "with_suffix (env_file creds_path) ''.tmp'' = Inr (creds_path @ [''aws-credentials.tmp''])"
  by (simp add: with_suffix_def env_file_def suffix_of_env Let_def)

lemma with_suffix_json_file:
  "with_suffix (json_file creds_path) ''.tmp'' = Inr (creds_path @ [''aws-credentials.tmp''])"
  by (simp add: with_suffix_def json_file_def suffix_of_json Let_def)

lemma json_string_AKIA1: \<open>json_string ''AKIA1'' = ''"AKIA1"''\<close>
  by code_simp

lemma json_string_s3cr3t: \<open>json_string ''s3cr3t'' = ''"s3cr3t"''\<close>
  by code_simp

lemma json_string_tok1: \<open>json_string ''tok1'' = ''"tok1"''\<close>
  by code_simp

lemma json_string_keys:
  \<open>json_string ''Version'' = ''"Version"''\<close>
  \<open>json_string ''AccessKeyId'' = ''"AccessKeyId"''\<close>
  \<open>json_string ''SecretAccessKey'' = ''"SecretAccessKey"''\<close>
  \<open>json_string ''SessionToken'' = ''"SessionToken"''\<close>
  \<open>json_string ''Expiration'' = ''"Expiration"''\<close>
  by code_simp+

lemma json_string_epoch_hour:
  \<open>json_string ''1970-01-01T01:00:00+00:00'' = ''"1970-01-01T01:00:00+00:00"''\<close>
  by code_simp

lemma dec_int_1: "dec_int 1 = ''1''"
  by code_simp

lemma auth0_exchange:
  assumes "idp_type cfg = ''auth0''"
    and "http_post e (auth0_token_request cfg) = Response st (Some result)"
    and "\<not> raise_for_status st"
    and "jb_access_token result = Some tok"
    and "token_expiry now_tok result = Inr ex_tok"
    and "sts_assume e (auth0_sts_request cfg tok) = Inr creds"
  shows "get_aws_credentials e now now_tok (init_provider cfg) =
    (Inr \<lparr>access_key_id = AccessKeyId creds, secret_access_key = SecretAccessKey creds,
          session_token = SessionToken creds, expiration = Expiration creds\<rparr>,
     (init_provider cfg)\<lparr>oidc_token := Some tok, oidc_expires := Some ex_tok,
        aws_creds := Some \<lparr>access_key_id = AccessKeyId creds, secret_access_key = SecretAccessKey creds,
          session_token = SessionToken creds, expiration = Expiration creds\<rparr>\<rparr>,
     [Post (auth0_token_request cfg), AssumeRole (auth0_sts_request cfg tok)])"
  using assms
  by (simp add: get_aws_credentials_def get_aws_credentials_auth0_def get_oidc_token_def
      fetch_oidc_token_def get_auth0_token_def init_provider_def Let_def)

lemma get_oidc_token_no_sleep:
  "filter is_sleep (snd (snd (get_oidc_token e now s))) = []"
  using fetch_trace [of e now s]
  by (auto simp: get_oidc_token_def split: option.splits if_splits)

lemma get_aws_credentials_no_sleep:
  "filter is_sleep (snd (snd (get_aws_credentials e now now_tok s))) = []"
proof -
  have a: "filter is_sleep (snd (snd (get_aws_credentials_auth0 e now_tok s))) = []"
    using get_oidc_token_no_sleep [of e now_tok s]
    by (cases "get_oidc_token e now_tok s")
       (auto simp: get_aws_credentials_auth0_def Let_def split: sum.splits)
  have b: "filter is_sleep (snd (snd (get_aws_credentials_cognito e now_tok s))) = []"
    using get_oidc_token_no_sleep [of e now_tok s]
    by (cases "get_oidc_token e now_tok s")
       (auto simp: get_aws_credentials_cognito_def Let_def
          split: sum.splits http_result.splits option.splits)
  show ?thesis using a b by (simp add: get_aws_credentials_def split: option.splits)
qed

lemma atomic_write_no_sleep:
  "filter is_sleep (snd (snd (atomic_write e p content files))) = []"
  by (simp add: atomic_write_def Let_def split: sum.splits write_result.splits option.splits)

lemma credential_refresh_no_sleep:
  "filter is_sleep (snd (snd (snd (credential_refresh e ck creds_path s files)))) = []"
proof (cases "get_aws_credentials e (now_creds ck) (now_token ck) s")
  case (fields r s1 tr)
  have t: "filter is_sleep tr = []"
    using get_aws_credentials_no_sleep [of e "now_creds ck" "now_token ck" s] fields by simp
  show ?thesis
  proof (cases r)
    case (Inl err)
    with fields t show ?thesis by (simp add: credential_refresh_def)
  next
    case (Inr creds)
    obtain r1 f1 tr1 where w1: "atomic_write e (env_file creds_path)
        (env_content e (now_env_file ck) (config s1) creds) files = (r1, f1, tr1)"
      by (cases "atomic_write e (env_file creds_path)
        (env_content e (now_env_file ck) (config s1) creds) files") 
    obtain r2 f2 tr2 where w2: "atomic_write e (json_file creds_path)
        (json_content e (config s1) creds) f1 = (r2, f2, tr2)"
      by (cases "atomic_write e (json_file creds_path) (json_content e (config s1) creds) f1")
    obtain r3 f3 tr3 where w3: "atomic_write e (aws_creds_file creds_path)
        (aws_creds_content e (now_sdk_file ck) (config s1) creds) f2 = (r3, f3, tr3)"
      by (cases "atomic_write e (aws_creds_file creds_path)
        (aws_creds_content e (now_sdk_file ck) (config s1) creds) f2")
    have n1: "filter is_sleep tr1 = []"
      using atomic_write_no_sleep [of e "env_file creds_path"
          "env_content e (now_env_file ck) (config s1) creds" files] w1 by simp
    have n2: "filter is_sleep tr2 = []"
      using atomic_write_no_sleep [of e "json_file creds_path"
          "json_content e (config s1) creds" f1] w2 by simp
    have n3: "filter is_sleep tr3 = []"
      using atomic_write_no_sleep [of e "aws_creds_file creds_path"
          "aws_creds_content e (now_sdk_file ck) (config s1) creds" f2] w3 by simp
    show ?thesis
      using fields Inr t w1 w2 w3 n1 n2 n3
      by (cases r1; cases r2; cases r3) (simp_all add: credential_refresh_def)
  qed
qed

lemma credential_cycle_sleep:
  "\<exists>tr0. snd (snd (credential_cycle e ck creds_path interval s files)) = tr0 @ [Sleep interval] \<and>
     filter is_sleep tr0 = []"
proof (cases "credential_refresh e ck creds_path s files")
  case (fields r s1 f1 tr)
  have t: "filter is_sleep tr = []"
    using credential_refresh_no_sleep [of e ck creds_path s files] fields by simp
  show ?thesis using fields t by (cases r) (simp_all add: credential_cycle_def)
qed

lemma credential_cycle_sleeps:
  "filter is_sleep (snd (snd (credential_cycle e ck creds_path interval s files))) = [Sleep interval]"
  using credential_cycle_sleep [of e ck creds_path interval s files] by auto

lemma credential_loop_status:
  "fst (credential_loop cycles creds_path interval s files) =
     (case List.find (\<lambda>c. sleep_error (fst c) interval \<noteq> None) cycles of
        None \<Rightarrow> Running
      | Some c \<Rightarrow> (case sleep_error (fst c) interval of
                     None \<Rightarrow> Running | Some err \<Rightarrow> Raised err))"
proof (induction cycles arbitrary: s files)
  case Nil
  then show ?case by simp
next
  case (Cons c rest)
  obtain s1 f1 tr where cy: "credential_cycle (fst c) (snd c) creds_path interval s files = (s1, f1, tr)"
    by (cases "credential_cycle (fst c) (snd c) creds_path interval s files")
  show ?case
    using Cons.IH [of s1 f1] cy
    by (cases "credential_loop rest creds_path interval s1 f1")
       (auto split: option.splits)
qed

lemma credential_loop_sleeps:
  "filter is_sleep (snd (snd (snd (credential_loop cycles creds_path interval s files)))) =
     replicate
       (min (Suc (length (takeWhile (\<lambda>c. sleep_error (fst c) interval = None) cycles)))
            (length cycles))
       (Sleep interval)"
proof (induction cycles arbitrary: s files)
  case Nil
  then show ?case by simp
next
  case (Cons c rest)
  obtain s1 f1 tr where cy: "credential_cycle (fst c) (snd c) creds_path interval s files = (s1, f1, tr)"
    by (cases "credential_cycle (fst c) (snd c) creds_path interval s files")
  have t: "filter is_sleep tr = [Sleep interval]"
    using credential_cycle_sleeps [of "fst c" "snd c" creds_path interval s files] cy by simp
  show ?case
    using Cons.IH [of s1 f1] cy t
    by (cases "credential_loop rest creds_path interval s1 f1")
       (auto split: option.splits)
qed

lemma find_sleep_error_None:
  "List.find (\<lambda>c. sleep_error (fst c) interval \<noteq> None) cycles = None \<longleftrightarrow>
     (\<forall>c \<in> set cycles. sleep_error (fst c) interval = None)"
  by (auto simp: find_None_iff)

lemma takeWhile_all_sleep:
  "\<forall>c \<in> set cycles. sleep_error (fst c) interval = None \<Longrightarrow>
   min (Suc (length (takeWhile (\<lambda>c. sleep_error (fst c) interval = None) cycles)))
       (length cycles) = length cycles"
  by (induction cycles) auto

lemma main_credential_daemon:
  assumes "mkdir_ok e0 creds_path"
  shows "fst (main cfg (CredentialDaemon creds_path interval) e0 ck0 cycles files) =
      (if \<forall>c \<in> set cycles. sleep_error (fst c) interval = None then None else Some 1) \<and>
    filter is_sleep (snd (snd (main cfg (CredentialDaemon creds_path interval) e0 ck0 cycles files))) =
      replicate
        (min (Suc (length (takeWhile (\<lambda>c. sleep_error (fst c) interval = None) cycles)))
             (length cycles))
        (Sleep interval)"
proof (cases "credential_loop cycles creds_path interval (init_provider cfg) files")
  case (fields st s1 f1 tr)
  have a: "st = (case List.find (\<lambda>c. sleep_error (fst c) interval \<noteq> None) cycles of
        None \<Rightarrow> Running
      | Some c \<Rightarrow> (case sleep_error (fst c) interval of
                     None \<Rightarrow> Running | Some err \<Rightarrow> Raised err))"
    using credential_loop_status [of cycles creds_path interval "init_provider cfg" files] fields
    by simp
  have b: "filter is_sleep tr =
     replicate
       (min (Suc (length (takeWhile (\<lambda>c. sleep_error (fst c) interval = None) cycles)))
            (length cycles))
       (Sleep interval)"
    using credential_loop_sleeps [of cycles creds_path interval "init_provider cfg" files] fields
    by simp
  show ?thesis
  proof (cases "List.find (\<lambda>c. sleep_error (fst c) interval \<noteq> None) cycles")
    case None
    then have all: "\<forall>c \<in> set cycles. sleep_error (fst c) interval = None"
      using find_sleep_error_None [of interval cycles] by blast
    from None a have "st = Running" by simp
    then show ?thesis
      using assms fields b all
      by (simp add: main_def cmd_credential_daemon_def finish_def)
  next
    case (Some c)
    then have bad: "sleep_error (fst c) interval \<noteq> None" and mem: "c \<in> set cycles"
      by (auto simp: find_Some_iff in_set_conv_nth)
    from bad obtain err where err: "sleep_error (fst c) interval = Some err" by auto
    from Some a err have "st = Raised err" by simp
    moreover have "\<not> (\<forall>c \<in> set cycles. sleep_error (fst c) interval = None)"
    proof
      assume "\<forall>c \<in> set cycles. sleep_error (fst c) interval = None"
      with mem have "sleep_error (fst c) interval = None" by (rule bspec [rotated])
      with bad show False by simp
    qed
    ultimately show ?thesis
      using assms fields b
      by (simp add: main_def cmd_credential_daemon_def finish_def)
  qed
qed

section \<open>The claims\<close>

text \<open>
  Claim C1, as the code has it. When the cached token is not None and not empty, the
  cached expiry is not None, and now is earlier than the expiry less REFRESH_BUFFER
  (five minutes), get_oidc_token returns the cached token, leaves the provider as it
  was and makes no network call.
\<close>

theorem token_cache_hit:
  "oidc_token s = Some tok \<Longrightarrow> tok \<noteq> [] \<Longrightarrow> oidc_expires s = Some ex \<Longrightarrow>
   now < ex - REFRESH_BUFFER \<Longrightarrow>
   REFRESH_BUFFER = seconds (5 * 60) \<and> get_oidc_token e now s = (Inr tok, s, [])"
  by (simp add: get_oidc_token_hit REFRESH_BUFFER_def minutes_def)

text \<open>The cache hit at a concrete provider, with the network down.\<close>

theorem token_cache_hit_witness:
  "oidc_token provider_cached = Some ''jwt0'' \<and> oidc_expires provider_cached = Some (seconds 86400) \<and>
   0 < seconds 86400 - REFRESH_BUFFER \<and>
   get_oidc_token env_down 0 provider_cached = (Inr ''jwt0'', provider_cached, [])"
proof -
  have a: "oidc_token provider_cached = Some ''jwt0''" by (simp add: provider_cached_def)
  have b: "oidc_expires provider_cached = Some (seconds 86400)" by (simp add: provider_cached_def)
  have c: "0 < seconds 86400 - REFRESH_BUFFER"
    by (simp add: seconds_def REFRESH_BUFFER_def minutes_def)
  have d: "''jwt0'' \<noteq> []" by simp
  show ?thesis using a b c token_cache_hit [OF a d b c, of env_down] by simp
qed

text \<open>
  Claim C1 as stated fails for a cached token that is the empty string: the test
  \<open>self._oidc_token and self._oidc_expires\<close> is false for it, and the token is fetched
  again although the cached expiry is a day away.
\<close>

theorem empty_token_refetched:
  "oidc_token provider_empty_token = Some [] \<and>
   oidc_expires provider_empty_token = Some (seconds 86400) \<and>
   0 < seconds 86400 - REFRESH_BUFFER \<and>
   snd (snd (get_oidc_token env_ok 0 provider_empty_token)) = [Post (auth0_token_request cfg_auth0)] \<and>
   fst (get_oidc_token env_ok 0 provider_empty_token) = Inr ''jwt1''"
  by (simp add: provider_empty_token_def get_oidc_token_def truthy_def fetch_oidc_token_def
      cfg_auth0_def get_auth0_token_def token_expiry_def timedelta_seconds_def datetime_add_def datetime_min_def datetime_max_def env_ok_def token_body_def raise_for_status_def
      seconds_def REFRESH_BUFFER_def minutes_def Let_def)



text \<open>
  Claim C4. When credentials are cached and now is earlier than their expiration less
  REFRESH_BUFFER, get_aws_credentials returns them, makes no call and leaves the
  provider as it was; the result is the same whatever the token cache holds.
\<close>

theorem credential_cache_hit:
  assumes "aws_creds s = Some cc" and "now < expiration cc - REFRESH_BUFFER"
  shows "get_aws_credentials e now now_tok s = (Inr cc, s, []) \<and>
    get_aws_credentials e now now_tok (s\<lparr>oidc_token := t, oidc_expires := x\<rparr>) =
      (Inr cc, s\<lparr>oidc_token := t, oidc_expires := x\<rparr>, [])"
  using assms by (simp add: get_aws_credentials_def)

text \<open>The credential cache hit at a concrete provider, with the network down.\<close>

theorem credential_cache_hit_witness:
  "aws_creds provider_with_creds = Some creds0 \<and> 0 < expiration creds0 - REFRESH_BUFFER \<and>
   get_aws_credentials env_down 0 0 provider_with_creds = (Inr creds0, provider_with_creds, [])"
proof -
  have a: "aws_creds provider_with_creds = Some creds0" by (simp add: provider_with_creds_def)
  have b: "0 < expiration creds0 - REFRESH_BUFFER"
    by (simp add: creds0_def seconds_def REFRESH_BUFFER_def minutes_def)
  show ?thesis using a b credential_cache_hit [OF a b, of env_down 0] by simp
qed

text \<open>
  Claim C2, as the code has it. When the cache cannot serve the call and the fetch
  fails by a network error, a status of 400 to 599, a body that is not a JSON object
  or a body without access_token, get_oidc_token returns the error after the one POST
  and the provider is exactly as before; a prior entry that is still usable is what any
  later call made before its expiry less the buffer returns, without a fetch.
\<close>

theorem token_fetch_failure:
  assumes unusable:
    "\<not> (\<exists>tok ex. oidc_token s = Some tok \<and> tok \<noteq> [] \<and> oidc_expires s = Some ex \<and>
          now < ex - REFRESH_BUFFER)"
  and failure:
    "(\<exists>m. http_post e (token_request e (config s)) = RequestFailed m) \<or>
     (\<exists>st body. http_post e (token_request e (config s)) = Response st body \<and>
        (raise_for_status st \<or> body = None \<or>
         (\<exists>result. body = Some result \<and> jb_access_token result = None)))"
  shows "(\<exists>err. get_oidc_token e now s = (Inl err, s, [Post (token_request e (config s))])) \<and>
    (\<forall>e' now' tok ex. oidc_token s = Some tok \<and> tok \<noteq> [] \<and> oidc_expires s = Some ex \<and>
        now' < ex - REFRESH_BUFFER \<longrightarrow> get_oidc_token e' now' s = (Inr tok, s, []))"
proof
  show "\<exists>err. get_oidc_token e now s = (Inl err, s, [Post (token_request e (config s))])"
    using get_oidc_token_unusable [OF unusable] fetch_failure_kinds [OF failure] by simp
  show "\<forall>e' now' tok ex. oidc_token s = Some tok \<and> tok \<noteq> [] \<and> oidc_expires s = Some ex \<and>
        now' < ex - REFRESH_BUFFER \<longrightarrow> get_oidc_token e' now' s = (Inr tok, s, [])"
    by (simp add: get_oidc_token_hit)
qed

text \<open>
  A refresh at day's end fails with the network down; the entry is still served at time 0.
\<close>

theorem token_fetch_failure_witness:
  "get_oidc_token env_down (seconds 86400) provider_cached =
     (Inl (RequestException ''connection refused''), provider_cached,
      [Post (auth0_token_request cfg_auth0)]) \<and>
   get_oidc_token env_ok 0 provider_cached = (Inr ''jwt0'', provider_cached, [])"
proof -
  have f: "(\<exists>m. http_post env_down (token_request env_down (config provider_cached)) = RequestFailed m) \<or>
     (\<exists>st body. http_post env_down (token_request env_down (config provider_cached)) = Response st body \<and>
        (raise_for_status st \<or> body = None \<or>
         (\<exists>result. body = Some result \<and> jb_access_token result = None)))"
    by (simp add: env_down_def)
  have r: "get_oidc_token env_down (seconds 86400) provider_cached =
     (Inl (RequestException ''connection refused''), provider_cached,
      [Post (auth0_token_request cfg_auth0)])"
    by (simp add: get_oidc_token_def truthy_def fetch_oidc_token_def get_auth0_token_def token_expiry_def timedelta_seconds_def datetime_add_def datetime_min_def datetime_max_def
        provider_cached_def cfg_auth0_def env_down_def seconds_def REFRESH_BUFFER_def
        minutes_def Let_def)
  have v: "oidc_token provider_cached = Some ''jwt0'' \<and> ''jwt0'' \<noteq> [] \<and>
      oidc_expires provider_cached = Some (seconds 86400) \<and> 0 < seconds 86400 - REFRESH_BUFFER"
    by (simp add: provider_cached_def seconds_def REFRESH_BUFFER_def minutes_def)
  from token_fetch_failure [OF stale_unusable f] v
  have "get_oidc_token env_ok 0 provider_cached = (Inr ''jwt0'', provider_cached, [])"
    by blast
  with r show ?thesis by simp
qed

text \<open>
  Claim C2 as stated fails for a status outside 2xx that raise_for_status lets through:
  a 302 response with a token body is taken as a success, and the cache is overwritten.
\<close>

theorem redirect_status_accepted:
  "http_post env_redirect (token_request env_redirect (config provider_stale)) =
     Response 302 (Some token_body) \<and>
   get_oidc_token env_redirect 0 provider_stale =
     (Inr ''jwt1'',
      provider_stale\<lparr>oidc_token := Some ''jwt1'', oidc_expires := Some (seconds 86400)\<rparr>,
      [Post (auth0_token_request cfg_auth0)])"
  by (simp add: get_oidc_token_def truthy_def fetch_oidc_token_def get_auth0_token_def token_expiry_def timedelta_seconds_def datetime_add_def datetime_min_def datetime_max_def
      provider_stale_def cfg_auth0_def env_redirect_def env_ok_def token_body_def
      raise_for_status_def seconds_def REFRESH_BUFFER_def minutes_def Let_def)

text \<open>
  Claim C5, as the code has it. With the cognito backend, no usable cached credentials
  and a token in hand, a vending response whose body has the error invalid_client
  makes get_aws_credentials fail: with the RuntimeError that carries invalid_client when
  raise_for_status accepts the status, with the HTTP status error otherwise. The
  credential cache is unchanged, and the daemon cycle logs the error, sleeps and
  performs no file operation, leaving every file as it was.
\<close>

theorem vending_error_response:
  assumes backend: "idp_type (config s) = ''cognito''"
    and miss: "aws_creds s = None \<or>
       (\<exists>cc. aws_creds s = Some cc \<and> expiration cc - now_creds ck \<le> REFRESH_BUFFER)"
    and tok: "get_oidc_token e (now_token ck) s = (Inr tok, s1, tr)"
    and resp: "http_post e (vending_request (config s1) tok) = Response st (Some result)"
    and err: "jb_error result = Some ''invalid_client''"
  shows "\<exists>x. x = (if raise_for_status st then HTTPError st
                 else RuntimeError ''Credential vending API error: invalid_client'' None) \<and>
    get_aws_credentials e (now_creds ck) (now_token ck) s =
      (Inl x, s1, tr @ [Post (vending_request (config s1) tok)]) \<and>
    aws_creds s1 = aws_creds s \<and>
    credential_cycle e ck creds_path interval s files =
      (s1, files,
       tr @ [Post (vending_request (config s1) tok),
             LogError ''Failed to refresh credentials: %s'' (Some x), Sleep interval]) \<and>
    filter is_file_op (snd (snd (credential_cycle e ck creds_path interval s files))) = []"
proof -
  from backend have b: "idp_type (config s) \<noteq> ''auth0''" by simp
  have g: "get_aws_credentials e (now_creds ck) (now_token ck) s =
      (Inl (if raise_for_status st then HTTPError st
            else RuntimeError ''Credential vending API error: invalid_client'' None),
       s1, tr @ [Post (vending_request (config s1) tok)])"
    using get_aws_credentials_miss_cognito [OF b miss] cognito_exchange_error [OF tok resp err]
    by simp
  have k: "aws_creds s1 = aws_creds s" using get_oidc_token_keeps_rest [OF tok] by simp
  have n: "filter is_file_op tr = []" using get_oidc_token_no_file_op [OF tok] .
  show ?thesis using g k n by (simp add: credential_cycle_def credential_refresh_def)
qed

text \<open>
  The error body with status 200, on a fresh provider.
\<close>

theorem vending_error_response_witness:
  "get_aws_credentials (env_vending_error 200) 0 0 (init_provider cfg_cognito) =
     (Inl (RuntimeError ''Credential vending API error: invalid_client'' None),
      (init_provider cfg_cognito)\<lparr>oidc_token := Some ''jwt1'', oidc_expires := Some (seconds 86400)\<rparr>,
      [Post (cognito_token_request (env_vending_error 200) cfg_cognito),
       Post (vending_request cfg_cognito ''jwt1'')]) \<and>
   fst (snd (credential_cycle (env_vending_error 200) clock0 [''run''] 2700
       (init_provider cfg_cognito) Map.empty)) = Map.empty"
proof -
  let ?e = "env_vending_error 200"
  let ?s = "init_provider cfg_cognito"
  let ?s1 = "?s\<lparr>oidc_token := Some ''jwt1'', oidc_expires := Some (seconds 86400)\<rparr>"
  have backend: "idp_type (config ?s) = ''cognito''"
    by (simp add: init_provider_def cfg_cognito_def)
  have miss: "aws_creds ?s = None \<or>
       (\<exists>cc. aws_creds ?s = Some cc \<and> expiration cc - now_creds clock0 \<le> REFRESH_BUFFER)"
    by (simp add: init_provider_def)
  have tok: "get_oidc_token ?e (now_token clock0) ?s =
      (Inr ''jwt1'', ?s1, [Post (cognito_token_request ?e cfg_cognito)])"
    by (simp add: init_provider_def get_oidc_token_def fetch_oidc_token_def
        get_cognito_token_def token_expiry_def timedelta_seconds_def datetime_add_def datetime_min_def datetime_max_def cognito_token_request_def cfg_cognito_def env_vending_error_def
        env_ok_def token_body_def raise_for_status_def clock0_def fstr_def seconds_def Let_def)
  have resp: "http_post ?e (vending_request (config ?s1) ''jwt1'') = Response 200 (Some error_body)"
    by (simp add: init_provider_def vending_request_def cfg_cognito_def env_vending_error_def
        env_ok_def fstr_def)
  have err: "jb_error error_body = Some ''invalid_client''" by (simp add: error_body_def)
  have c: "config ?s1 = cfg_cognito" by (simp add: init_provider_def)
  have z: "now_creds clock0 = 0 \<and> now_token clock0 = 0" by (simp add: clock0_def)
  show ?thesis
    using vending_error_response [OF backend miss tok resp err, of "[''run'']" 2700 Map.empty] c z
    by (simp add: raise_for_status_def)
qed

text \<open>
  Claim C5 as stated fails when the error body comes with status 401:
  raise_for_status raises first, and the error is the HTTP status error, which does not
  carry invalid_client.
\<close>

theorem vending_error_status_401:
  "http_post (env_vending_error 401) (vending_request cfg_cognito ''jwt1'') =
     Response 401 (Some error_body) \<and>
   jb_error error_body = Some ''invalid_client'' \<and>
   fst (get_aws_credentials (env_vending_error 401) 0 0 (init_provider cfg_cognito)) =
     Inl (HTTPError 401)"
  by (simp add: init_provider_def get_aws_credentials_def get_aws_credentials_cognito_def
      get_oidc_token_def fetch_oidc_token_def get_cognito_token_def token_expiry_def timedelta_seconds_def datetime_add_def datetime_min_def datetime_max_def cognito_token_request_def
      vending_request_def cfg_cognito_def env_vending_error_def env_ok_def token_body_def
      error_body_def raise_for_status_def fstr_def seconds_def Let_def)

text \<open>
  Claim C6, as the code has it. When write_text on the temporary path fails and the
  temporary path is not the target itself, atomic_write raises after that one call: no
  rename is made and the target file is as it was. The temporary file is not removed:
  it holds what the failed write left there. In every atomic write, a rename happens
  only after write_text has succeeded, from the temporary path to the target.
\<close>

theorem failed_write_keeps_target:
  assumes tmp: "with_suffix p ''.tmp'' = Inr tmp_path"
    and failed: "write_text e tmp_path content = WriteFailed x"
    and distinct: "tmp_path \<noteq> p"
  shows "\<exists>files'. atomic_write e p content files =
      (Inl (OSError ''write_text''), files', [WriteText tmp_path content]) \<and>
    files' p = files p \<and>
    files' tmp_path = (case x of None \<Rightarrow> files tmp_path | Some n \<Rightarrow> Some (take n content)) \<and>
    (\<forall>e' p' c' f' a b. Rename a b \<in> set (snd (snd (atomic_write e' p' c' f'))) \<longrightarrow>
       write_text e' a c' = WriteOk \<and> with_suffix p' ''.tmp'' = Inr a \<and> b = p')"
proof -
  have r: "\<forall>e' p' c' f' a b. Rename a b \<in> set (snd (snd (atomic_write e' p' c' f'))) \<longrightarrow>
       write_text e' a c' = WriteOk \<and> with_suffix p' ''.tmp'' = Inr a \<and> b = p'"
    by (auto simp: atomic_write_def Let_def
        split: sum.splits write_result.splits option.splits if_splits)
  show ?thesis
    using tmp failed distinct r
    by (cases x) (simp_all add: atomic_write_def)
qed

text \<open>
  Claim C6 as stated fails: the code never removes the temporary file. After a write
  that fails when three characters have reached the disk, the temporary file, which did
  not exist before, holds those three characters.
\<close>

theorem failed_write_leaves_temp_file:
  "write_text env_disk_full [''d'', ''credentials.tmp''] ''abcdef'' = WriteFailed (Some 3) \<and>
   Map.empty [''d'', ''credentials.tmp''] = (None :: string option) \<and>
   fst (snd (atomic_write env_disk_full [''d'', ''credentials''] ''abcdef'' Map.empty))
       [''d'', ''credentials.tmp''] = Some ''abc''"
  by (simp add: atomic_write_def with_suffix_credentials env_disk_full_def env_ok_def)

text \<open>
  Claim C8. With the cognito backend the token-file daemon logs two errors and leaves
  through sys.exit(1) before its loop: the exit code is 1, the files are as they were,
  and there is no fetch, no file operation and no sleep, however many cycles the
  environment would have allowed.
\<close>

theorem token_daemon_rejects_cognito:
  assumes "idp_type cfg = ''cognito''"
  shows "main cfg (TokenDaemon token_file interval) e0 ck0 cycles files =
    (Some 1, files,
     [LogError ''Token daemon only works with Auth0.'' None,
      LogError ''Cognito requires the credential vending API'' None,
      SysExit 1]) \<and>
    filter is_fetch (snd (snd (main cfg (TokenDaemon token_file interval) e0 ck0 cycles files))) = [] \<and>
    filter is_file_op (snd (snd (main cfg (TokenDaemon token_file interval) e0 ck0 cycles files))) = [] \<and>
    filter is_sleep (snd (snd (main cfg (TokenDaemon token_file interval) e0 ck0 cycles files))) = []"
  using assms by (simp add: main_def cmd_token_daemon_def finish_def init_provider_def)

text \<open>
  The cognito configuration with the default token-daemon arguments.
\<close>

theorem token_daemon_rejects_cognito_witness:
  "idp_type cfg_cognito = ''cognito'' \<and>
   main cfg_cognito default_token_daemon env_ok clock0 [(env_ok, clock0)] Map.empty =
    (Some 1, Map.empty,
     [LogError ''Token daemon only works with Auth0.'' None,
      LogError ''Cognito requires the credential vending API'' None,
      SysExit 1])"
proof -
  have a: "idp_type cfg_cognito = ''cognito''" by (simp add: cfg_cognito_def)
  show ?thesis
    using a token_daemon_rejects_cognito [OF a, of "[''var'', ''run'', ''oidc'', ''token'']" 3600
        env_ok clock0 "[(env_ok, clock0)]" Map.empty]
    by (simp add: default_token_daemon_def)
qed

text \<open>
  A failed write of the JSON file: the published file keeps its old content.
\<close>

theorem failed_write_keeps_target_witness:
  "with_suffix (json_file [''d'']) ''.tmp'' = Inr [''d'', ''aws-credentials.tmp''] \<and>
   write_text env_disk_full [''d'', ''aws-credentials.tmp''] ''abcdef'' = WriteFailed (Some 3) \<and>
   [''d'', ''aws-credentials.tmp''] \<noteq> json_file [''d''] \<and>
   fst (snd (atomic_write env_disk_full (json_file [''d'']) ''abcdef''
       [json_file [''d''] \<mapsto> ''old''])) (json_file [''d'']) = Some ''old'' \<and>
   snd (snd (atomic_write env_disk_full (json_file [''d'']) ''abcdef''
       [json_file [''d''] \<mapsto> ''old''])) = [WriteText [''d'', ''aws-credentials.tmp''] ''abcdef'']"
proof -
  have a: "with_suffix (json_file [''d'']) ''.tmp'' = Inr [''d'', ''aws-credentials.tmp'']"
    using with_suffix_json_file [of "[''d'']"] by simp
  have b: "write_text env_disk_full [''d'', ''aws-credentials.tmp''] ''abcdef'' = WriteFailed (Some 3)"
    by (simp add: env_disk_full_def env_ok_def)
  have c: "[''d'', ''aws-credentials.tmp''] \<noteq> json_file [''d'']"
    by (simp add: json_file_def)
  from failed_write_keeps_target [OF a b c, of "[json_file [''d''] \<mapsto> ''old'']"]
  obtain files' where
    "atomic_write env_disk_full (json_file [''d'']) ''abcdef'' [json_file [''d''] \<mapsto> ''old''] =
      (Inl (OSError ''write_text''), files', [WriteText [''d'', ''aws-credentials.tmp''] ''abcdef''])"
    and "files' (json_file [''d'']) = [json_file [''d''] \<mapsto> ''old''] (json_file [''d''])"
    by blast
  then show ?thesis using a b c by simp
qed

text \<open>
  Claim C10. The temporary path of the env file and that of the JSON file are the same
  path, aws-credentials.tmp in the credentials directory; every write and rename of an
  atomic write goes through the path that with_suffix gives for the target; and in a
  daemon cycle that obtains credentials and publishes the env file, the env content
  and then the JSON content are written to that one temporary path.
\<close>

theorem shared_temporary_path:
  "with_suffix (env_file creds_path) ''.tmp'' = Inr (creds_path @ [''aws-credentials.tmp'']) \<and>
   with_suffix (json_file creds_path) ''.tmp'' = Inr (creds_path @ [''aws-credentials.tmp'']) \<and>
   (\<forall>e p content files ev. ev \<in> set (snd (snd (atomic_write e p content files))) \<longrightarrow>
      (\<exists>tmp_path. with_suffix p ''.tmp'' = Inr tmp_path \<and>
         (ev = WriteText tmp_path content \<or> ev = Rename tmp_path p))) \<and>
   (\<forall>e ck s files creds s1 tr.
      get_aws_credentials e (now_creds ck) (now_token ck) s = (Inr creds, s1, tr) \<and>
      write_text e (creds_path @ [''aws-credentials.tmp''])
        (env_content e (now_env_file ck) (config s1) creds) = WriteOk \<and>
      rename_ok e (creds_path @ [''aws-credentials.tmp'']) (env_file creds_path) \<longrightarrow>
      (\<exists>rest. snd (snd (snd (credential_refresh e ck creds_path s files))) =
         tr @ [WriteText (creds_path @ [''aws-credentials.tmp''])
                 (env_content e (now_env_file ck) (config s1) creds),
               Rename (creds_path @ [''aws-credentials.tmp'']) (env_file creds_path),
               WriteText (creds_path @ [''aws-credentials.tmp''])
                 (json_content e (config s1) creds)] @ rest))"
proof (intro conjI allI impI)
  show "with_suffix (env_file creds_path) ''.tmp'' = Inr (creds_path @ [''aws-credentials.tmp''])"
    by (rule with_suffix_env_file)
  show "with_suffix (json_file creds_path) ''.tmp'' = Inr (creds_path @ [''aws-credentials.tmp''])"
    by (rule with_suffix_json_file)
next
  fix e :: env and p :: path and content :: string and files :: fs and ev :: event
  assume "ev \<in> set (snd (snd (atomic_write e p content files)))"
  then show "\<exists>tmp_path. with_suffix p ''.tmp'' = Inr tmp_path \<and>
         (ev = WriteText tmp_path content \<or> ev = Rename tmp_path p)"
    by (auto simp: atomic_write_def Let_def
        split: sum.splits write_result.splits option.splits if_splits)
next
  fix e :: env and ck :: clock and s :: provider and files :: fs
    and creds :: CachedCredentials and s1 :: provider and tr :: "event list"
  assume h: "get_aws_credentials e (now_creds ck) (now_token ck) s = (Inr creds, s1, tr) \<and>
      write_text e (creds_path @ [''aws-credentials.tmp''])
        (env_content e (now_env_file ck) (config s1) creds) = WriteOk \<and>
      rename_ok e (creds_path @ [''aws-credentials.tmp'']) (env_file creds_path)"
  have ne: "creds_path @ [''aws-credentials.tmp''] \<noteq> env_file creds_path"
    by (simp add: env_file_def)
  have a1: "atomic_write e (env_file creds_path)
      (env_content e (now_env_file ck) (config s1) creds) files =
     (Inr (),
      (files(creds_path @ [''aws-credentials.tmp''] := None))
         (env_file creds_path \<mapsto> env_content e (now_env_file ck) (config s1) creds),
      [WriteText (creds_path @ [''aws-credentials.tmp''])
         (env_content e (now_env_file ck) (config s1) creds),
       Rename (creds_path @ [''aws-credentials.tmp'']) (env_file creds_path)])"
    using h ne by (simp add: atomic_write_def with_suffix_env_file Let_def)
  have a2: "\<exists>r f2 rest2. atomic_write e (json_file creds_path) (json_content e (config s1) creds) f =
      (r, f2, WriteText (creds_path @ [''aws-credentials.tmp'']) (json_content e (config s1) creds) # rest2)" for f
    by (simp add: atomic_write_def with_suffix_json_file Let_def
        split: write_result.splits option.splits)
  obtain r f2 rest2 where j: "atomic_write e (json_file creds_path) (json_content e (config s1) creds)
      ((files(creds_path @ [''aws-credentials.tmp''] := None))
         (env_file creds_path \<mapsto> env_content e (now_env_file ck) (config s1) creds)) =
      (r, f2, WriteText (creds_path @ [''aws-credentials.tmp'']) (json_content e (config s1) creds) # rest2)"
    using a2 by blast
  show "\<exists>rest. snd (snd (snd (credential_refresh e ck creds_path s files))) =
         tr @ [WriteText (creds_path @ [''aws-credentials.tmp''])
                 (env_content e (now_env_file ck) (config s1) creds),
               Rename (creds_path @ [''aws-credentials.tmp'']) (env_file creds_path),
               WriteText (creds_path @ [''aws-credentials.tmp''])
                 (json_content e (config s1) creds)] @ rest"
    using h a1 j
    by (cases r; cases "atomic_write e (aws_creds_file creds_path)
          (aws_creds_content e (now_sdk_file ck) (config s1) creds) f2")
       (auto simp: credential_refresh_def split: sum.splits prod.splits)
qed

text \<open>
  Claim C7. After a successful Auth0 exchange (the token is fetched and its expiry
  computed, and STS returns AKIA1, s3cr3t, tok1 and the expiration ex), the
  get-credentials command makes the token POST and the STS call, prints exactly one
  line and exits with code 0. The line is json.dumps of the object with the keys
  Version, AccessKeyId, SecretAccessKey, SessionToken and Expiration in this order,
  Version 1, the three values of the collaborator verbatim and the expiration in the
  ISO-8601 text that isoformat gives; json.dumps writes it with its default separators,
  a comma and a space between the items, a colon and a space after each key.
\<close>

theorem emission_output:
  assumes "idp_type cfg = ''auth0''"
    and "http_post e (auth0_token_request cfg) = Response st (Some result)"
    and "\<not> raise_for_status st"
    and "jb_access_token result = Some tok"
    and "token_expiry (now_token ck) result = Inr ex_tok"
    and "sts_assume e (auth0_sts_request cfg tok) =
      Inr \<lparr>AccessKeyId = ''AKIA1'', SecretAccessKey = ''s3cr3t'', SessionToken = ''tok1'',
           Expiration = ex\<rparr>"
  shows \<open>main cfg GetCredentials e ck cycles files =
    (Some 0, files,
     [Post (auth0_token_request cfg), AssumeRole (auth0_sts_request cfg tok),
      Print (json_dumps
        [(''Version'', JInt 1), (''AccessKeyId'', JStr ''AKIA1''),
         (''SecretAccessKey'', JStr ''s3cr3t''), (''SessionToken'', JStr ''tok1''),
         (''Expiration'', JStr (isoformat e ex))])]) \<and>
    json_dumps
        [(''Version'', JInt 1), (''AccessKeyId'', JStr ''AKIA1''),
         (''SecretAccessKey'', JStr ''s3cr3t''), (''SessionToken'', JStr ''tok1''),
         (''Expiration'', JStr (isoformat e ex))] =
      ''{"Version": 1, "AccessKeyId": "AKIA1", "SecretAccessKey": "s3cr3t", '' @
      ''"SessionToken": "tok1", "Expiration": '' @ json_string (isoformat e ex) @ ''}''\<close>
proof
  show \<open>main cfg GetCredentials e ck cycles files =
    (Some 0, files,
     [Post (auth0_token_request cfg), AssumeRole (auth0_sts_request cfg tok),
      Print (json_dumps
        [(''Version'', JInt 1), (''AccessKeyId'', JStr ''AKIA1''),
         (''SecretAccessKey'', JStr ''s3cr3t''), (''SessionToken'', JStr ''tok1''),
         (''Expiration'', JStr (isoformat e ex))])])\<close>
    using auth0_exchange [OF assms, of "now_creds ck"]
    by (simp add: main_def cmd_get_credentials_def credentials_output_def)
  show \<open>json_dumps
        [(''Version'', JInt 1), (''AccessKeyId'', JStr ''AKIA1''),
         (''SecretAccessKey'', JStr ''s3cr3t''), (''SessionToken'', JStr ''tok1''),
         (''Expiration'', JStr (isoformat e ex))] =
      ''{"Version": 1, "AccessKeyId": "AKIA1", "SecretAccessKey": "s3cr3t", '' @
      ''"SessionToken": "tok1", "Expiration": '' @ json_string (isoformat e ex) @ ''}''\<close>
    by (simp add: json_dumps_def json_value_def json_string_keys json_string_AKIA1
        json_string_s3cr3t json_string_tok1 dec_int_1)
qed

text \<open>
  The emission at a concrete environment, expiration one hour after the epoch.
\<close>

theorem emission_output_witness:
  \<open>main cfg_auth0 GetCredentials env_ok clock0 [] Map.empty =
    (Some 0, Map.empty,
     [Post (auth0_token_request cfg_auth0), AssumeRole (auth0_sts_request cfg_auth0 ''jwt1''),
      Print (''{"Version": 1, "AccessKeyId": "AKIA1", "SecretAccessKey": "s3cr3t", '' @
             ''"SessionToken": "tok1", "Expiration": "1970-01-01T01:00:00+00:00"}'')])\<close>
proof -
  have a: "idp_type cfg_auth0 = ''auth0''" by (simp add: cfg_auth0_def)
  have b: "http_post env_ok (auth0_token_request cfg_auth0) = Response 200 (Some token_body)"
    by (simp add: env_ok_def)
  have c: "\<not> raise_for_status 200" by (simp add: raise_for_status_def)
  have d: "jb_access_token token_body = Some ''jwt1''" by (simp add: token_body_def)
  have x: "token_expiry (now_token clock0) token_body = Inr (seconds 86400)"
    using token_expiry_epoch_default [of token_body] by (simp add: token_body_def clock0_def)
  have f: "sts_assume env_ok (auth0_sts_request cfg_auth0 ''jwt1'') =
      Inr \<lparr>AccessKeyId = ''AKIA1'', SecretAccessKey = ''s3cr3t'', SessionToken = ''tok1'',
           Expiration = seconds 3600\<rparr>"
    by (simp add: env_ok_def sts_ok_def)
  have g: "isoformat env_ok (seconds 3600) = ''1970-01-01T01:00:00+00:00''"
    by (simp add: env_ok_def)
  show ?thesis
    using emission_output [OF a b c d x f, of "[]" Map.empty]
    by (simp add: g json_string_epoch_hour)
qed

text \<open>
  Claim C9. Every cycle of the credential-file daemon ends with the call of
  time.sleep on the configured interval, its only sleep, whether the refresh succeeded
  or failed. Whether the loop goes on depends on that call alone, never on what
  happened in a cycle: the loop is left only by the error of the first time.sleep that
  raises (an interval that time.sleep or the operating system rejects). While every
  sleep returns, the daemon is still running after any number of cycles, each with its
  one sleep, and main has not exited. When no interval is given, the interval is 2700
  seconds.
\<close>

theorem daemon_sleeps_every_cycle:
  "(\<forall>e ck s files. \<exists>tr0.
      snd (snd (credential_cycle e ck creds_path interval s files)) = tr0 @ [Sleep interval] \<and>
      filter is_sleep tr0 = []) \<and>
   fst (credential_loop cycles creds_path interval s files) =
     (case List.find (\<lambda>c. sleep_error (fst c) interval \<noteq> None) cycles of
        None \<Rightarrow> Running
      | Some c \<Rightarrow> (case sleep_error (fst c) interval of
                     None \<Rightarrow> Running | Some err \<Rightarrow> Raised err)) \<and>
   filter is_sleep (snd (snd (snd (credential_loop cycles creds_path interval s files)))) =
     replicate
       (min (Suc (length (takeWhile (\<lambda>c. sleep_error (fst c) interval = None) cycles)))
            (length cycles))
       (Sleep interval) \<and>
   (mkdir_ok e0 creds_path \<longrightarrow>
      fst (main cfg (CredentialDaemon creds_path interval) e0 ck0 cycles files) =
        (if \<forall>c \<in> set cycles. sleep_error (fst c) interval = None then None else Some 1) \<and>
      filter is_sleep
        (snd (snd (main cfg (CredentialDaemon creds_path interval) e0 ck0 cycles files))) =
        replicate
          (min (Suc (length (takeWhile (\<lambda>c. sleep_error (fst c) interval = None) cycles)))
               (length cycles))
          (Sleep interval)) \<and>
   (mkdir_ok e0 creds_path \<and> (\<forall>c \<in> set cycles. sleep_error (fst c) interval = None) \<longrightarrow>
      fst (main cfg (CredentialDaemon creds_path interval) e0 ck0 cycles files) = None \<and>
      filter is_sleep
        (snd (snd (main cfg (CredentialDaemon creds_path interval) e0 ck0 cycles files))) =
        replicate (length cycles) (Sleep interval)) \<and>
   (mkdir_ok e0 creds_path \<and> (\<forall>c \<in> set cycles. sleep_returns (fst c) 2700) \<longrightarrow>
      fst (main cfg (parse_credential_daemon (Some creds_path) None) e0 ck0 cycles files) = None \<and>
      filter is_sleep
        (snd (snd (main cfg (parse_credential_daemon (Some creds_path) None) e0 ck0 cycles files))) =
        replicate (length cycles) (Sleep 2700))"
proof (intro conjI allI impI)
  fix e :: env and ck :: clock and s :: provider and files :: fs
  show "\<exists>tr0. snd (snd (credential_cycle e ck creds_path interval s files)) = tr0 @ [Sleep interval] \<and>
      filter is_sleep tr0 = []"
    by (rule credential_cycle_sleep)
next
  show "fst (credential_loop cycles creds_path interval s files) =
     (case List.find (\<lambda>c. sleep_error (fst c) interval \<noteq> None) cycles of
        None \<Rightarrow> Running
      | Some c \<Rightarrow> (case sleep_error (fst c) interval of
                     None \<Rightarrow> Running | Some err \<Rightarrow> Raised err))"
    by (rule credential_loop_status)
next
  show "filter is_sleep (snd (snd (snd (credential_loop cycles creds_path interval s files)))) =
     replicate
       (min (Suc (length (takeWhile (\<lambda>c. sleep_error (fst c) interval = None) cycles)))
            (length cycles))
       (Sleep interval)"
    by (rule credential_loop_sleeps)
next
  assume m: "mkdir_ok e0 creds_path"
  show "fst (main cfg (CredentialDaemon creds_path interval) e0 ck0 cycles files) =
        (if \<forall>c \<in> set cycles. sleep_error (fst c) interval = None then None else Some 1)"
    using main_credential_daemon [OF m, of cfg interval ck0 cycles files] by simp
  show "filter is_sleep
        (snd (snd (main cfg (CredentialDaemon creds_path interval) e0 ck0 cycles files))) =
        replicate
          (min (Suc (length (takeWhile (\<lambda>c. sleep_error (fst c) interval = None) cycles)))
               (length cycles))
          (Sleep interval)"
    using main_credential_daemon [OF m, of cfg interval ck0 cycles files] by simp
next
  assume h: "mkdir_ok e0 creds_path \<and> (\<forall>c \<in> set cycles. sleep_error (fst c) interval = None)"
  then have m: "mkdir_ok e0 creds_path"
    and all: "\<forall>c \<in> set cycles. sleep_error (fst c) interval = None" by simp_all
  show "fst (main cfg (CredentialDaemon creds_path interval) e0 ck0 cycles files) = None"
    using main_credential_daemon [OF m, of cfg interval ck0 cycles files] all by simp
  show "filter is_sleep
        (snd (snd (main cfg (CredentialDaemon creds_path interval) e0 ck0 cycles files))) =
        replicate (length cycles) (Sleep interval)"
    using main_credential_daemon [OF m, of cfg interval ck0 cycles files]
      takeWhile_all_sleep [OF all] by simp
next
  assume h: "mkdir_ok e0 creds_path \<and> (\<forall>c \<in> set cycles. sleep_returns (fst c) 2700)"
  then have m: "mkdir_ok e0 creds_path" by simp
  from h have all: "\<forall>c \<in> set cycles. sleep_error (fst c) 2700 = None"
    by (simp add: sleep_error_def)
  have d: "parse_credential_daemon (Some creds_path) None = CredentialDaemon creds_path 2700"
    by (simp add: parse_credential_daemon_def)
  show "fst (main cfg (parse_credential_daemon (Some creds_path) None) e0 ck0 cycles files) = None"
    using main_credential_daemon [OF m, of cfg 2700 ck0 cycles files] all by (simp add: d)
  show "filter is_sleep
        (snd (snd (main cfg (parse_credential_daemon (Some creds_path) None) e0 ck0 cycles files))) =
        replicate (length cycles) (Sleep 2700)"
    using main_credential_daemon [OF m, of cfg 2700 ck0 cycles files]
      takeWhile_all_sleep [OF all] by (simp add: d)
qed

text \<open>
  Two cycles with the default interval, the first with the network down: two sleeps of
  2700 seconds, and main has not exited.
\<close>

theorem daemon_sleeps_every_cycle_witness:
  "mkdir_ok env_ok [''run''] \<and>
   sleep_returns env_down 2700 \<and> sleep_returns env_ok 2700 \<and>
   fst (main cfg_auth0 (parse_credential_daemon (Some [''run'']) None) env_ok clock0
          [(env_down, clock0), (env_ok, clock0)] Map.empty) = None \<and>
   filter is_sleep (snd (snd (main cfg_auth0 (parse_credential_daemon (Some [''run'']) None)
       env_ok clock0 [(env_down, clock0), (env_ok, clock0)] Map.empty))) =
     [Sleep 2700, Sleep 2700]"
proof -
  have m: "mkdir_ok env_ok [''run'']" by (simp add: env_ok_def)
  have sl: "sleep_returns env_down 2700 \<and> sleep_returns env_ok 2700"
    by (simp add: env_down_def env_ok_def)
  then have all: "\<forall>c \<in> set [(env_down, clock0), (env_ok, clock0)]. sleep_returns (fst c) 2700"
    by simp
  have r: "replicate (length [(env_down, clock0), (env_ok, clock0)]) (Sleep 2700) =
      [Sleep 2700, Sleep 2700]"
    by simp
  show ?thesis
    using m sl all
      daemon_sleeps_every_cycle [of "[''run'']" 2700 "[(env_down, clock0), (env_ok, clock0)]"
        "init_provider cfg_auth0" Map.empty env_ok cfg_auth0 clock0]
    unfolding r by blast
qed

text \<open>
  A successful cycle writes both contents to the same temporary path.
\<close>

theorem shared_temporary_path_witness:
  "WriteText [''run'', ''aws-credentials.tmp'']
      (env_content env_ok 0 cfg_auth0
         \<lparr>access_key_id = ''AKIA1'', secret_access_key = ''s3cr3t'', session_token = ''tok1'',
          expiration = seconds 3600\<rparr>)
     \<in> set (snd (snd (snd (credential_refresh env_ok clock0 [''run''] (init_provider cfg_auth0) Map.empty)))) \<and>
   WriteText [''run'', ''aws-credentials.tmp'']
      (json_content env_ok cfg_auth0
         \<lparr>access_key_id = ''AKIA1'', secret_access_key = ''s3cr3t'', session_token = ''tok1'',
          expiration = seconds 3600\<rparr>)
     \<in> set (snd (snd (snd (credential_refresh env_ok clock0 [''run''] (init_provider cfg_auth0) Map.empty))))"
proof -
  let ?cc = "\<lparr>access_key_id = ''AKIA1'', secret_access_key = ''s3cr3t'', session_token = ''tok1'',
          expiration = seconds 3600\<rparr>"
  let ?s1 = "(init_provider cfg_auth0)\<lparr>oidc_token := Some ''jwt1'',
        oidc_expires := Some (seconds 86400), aws_creds := Some ?cc\<rparr>"
  have a: "idp_type cfg_auth0 = ''auth0''" by (simp add: cfg_auth0_def)
  have b: "http_post env_ok (auth0_token_request cfg_auth0) = Response 200 (Some token_body)"
    by (simp add: env_ok_def)
  have c: "\<not> raise_for_status 200" by (simp add: raise_for_status_def)
  have d: "jb_access_token token_body = Some ''jwt1''" by (simp add: token_body_def)
  have f: "sts_assume env_ok (auth0_sts_request cfg_auth0 ''jwt1'') = Inr sts_ok"
    by (simp add: env_ok_def)
  have x: "token_expiry (now_token clock0) token_body = Inr (seconds 86400)"
    using token_expiry_epoch_default [of token_body] by (simp add: token_body_def clock0_def)
  have g: "get_aws_credentials env_ok (now_creds clock0) (now_token clock0) (init_provider cfg_auth0) =
      (Inr ?cc, ?s1, [Post (auth0_token_request cfg_auth0), AssumeRole (auth0_sts_request cfg_auth0 ''jwt1'')])"
    using auth0_exchange [OF a b c d x f, of "now_creds clock0"]
    by (simp add: sts_ok_def token_body_def clock0_def)
  have w: "write_text env_ok ([''run''] @ [''aws-credentials.tmp''])
        (env_content env_ok (now_env_file clock0) (config ?s1) ?cc) = WriteOk"
    by (simp add: env_ok_def)
  have n: "rename_ok env_ok ([''run''] @ [''aws-credentials.tmp'']) (env_file [''run''])"
    by (simp add: env_ok_def)
  have cfg: "config ?s1 = cfg_auth0" by (simp add: init_provider_def)
  have z: "now_env_file clock0 = 0" by (simp add: clock0_def)
  have cfg0: "config (init_provider cfg_auth0) = cfg_auth0" by (simp add: init_provider_def)
  from shared_temporary_path [of "[''run'']"] g w n
  obtain rest where
    "snd (snd (snd (credential_refresh env_ok clock0 [''run''] (init_provider cfg_auth0) Map.empty))) =
       [Post (auth0_token_request cfg_auth0), AssumeRole (auth0_sts_request cfg_auth0 ''jwt1'')] @
       [WriteText ([''run''] @ [''aws-credentials.tmp''])
          (env_content env_ok (now_env_file clock0) (config ?s1) ?cc),
        Rename ([''run''] @ [''aws-credentials.tmp'']) (env_file [''run'']),
        WriteText ([''run''] @ [''aws-credentials.tmp''])
          (json_content env_ok (config ?s1) ?cc)] @ rest"
    by blast
  then show ?thesis by (simp add: cfg cfg0 z)
qed

end
